theory Spec2Isabelle
  imports Complex_Main "HOL-Library.Word"
begin

unbundle bit_operations_syntax

section \<open>The BME680 MQTT subscriber: the message callback\<close>

text \<open>
  The program under study is \<^verbatim>\<open>tools/mqtt_subscriber.py\<close>. Its only decision logic is
  the callback \<^verbatim>\<open>on_message(client, userdata, msg)\<close>: it decodes the payload of one
  MQTT message as JSON, prints a header and a report whose shape depends on the topic, and
  turns every exception of that work into one printed line.

  Conventions of the embedding.
  \<^item> A Python \<^verbatim>\<open>str\<close> is the \<open>string\<close> of its UTF-8 bytes, so the ASCII parts of the
    source's literals are written as they stand and each glyph is the byte sequence the
    source file holds for it. A \<^verbatim>\<open>bytes\<close> payload is a \<open>string\<close> as well. Text with
    no UTF-8 encoding (a lone surrogate, which \<^verbatim>\<open>json.loads\<close> accepts as an escape) is
    outside the model.
  \<^item> Standard output is the list of the strings handed to \<^verbatim>\<open>print\<close>, one element
    per call, in order; \<^verbatim>\<open>print\<close> itself is taken not to fail, that is, the stream
    encodes every text it is given.
  \<^item> An exception is a value \<open>Exc cls text\<close>: its class and what \<^verbatim>\<open>str(e)\<close> yields.
    A computation that may raise has type \<open>pyexc + 'a\<close>, with \<open>Inl\<close> for the exception.
  \<^item> The clock is an input: \<open>timestamp\<close> is what
    \<^verbatim>\<open>datetime.now().strftime("%Y-%m-%d %H:%M:%S")\<close> returned for this call.
  \<^item> The library calls whose results the program only passes on
    (\<^verbatim>\<open>bytes.decode\<close>, \<^verbatim>\<open>json.loads\<close>, \<^verbatim>\<open>json.dumps\<close>, and
    \<^verbatim>\<open>repr\<close> of floats and containers) are the fields of a record \<open>runtime\<close>;
    the general theorems hold for all of them, and a worked example fixes them on its
    own payload.
\<close>

subsection \<open>Values and exceptions\<close>

text \<open>
  A Python float is its IEEE 754 binary64 bit pattern. The value a JSON document decodes
  to is one of Python's \<^verbatim>\<open>None\<close>, \<^verbatim>\<open>bool\<close>, \<^verbatim>\<open>int\<close>, \<^verbatim>\<open>float\<close>,
  \<^verbatim>\<open>str\<close>, \<^verbatim>\<open>list\<close> and \<^verbatim>\<open>dict\<close>; a \<^verbatim>\<open>dict\<close> is the list of its items
  in insertion order (each key once).
\<close>

type_synonym pyfloat = "64 word"

datatype json =
    JNull
  | JBool bool
  | JInt int
  | JFloat pyfloat
  | JStr string
  | JList "json list"
  | JDict "(string \<times> json) list"

datatype exc_class =
    JSONDecodeError
  | UnicodeDecodeError
  | ValueError
  | TypeError
  | AttributeError
  | OverflowError
  | RecursionError

datatype pyexc = Exc (exc_class: exc_class) (exc_str: string)

record runtime =
  bytes_decode :: "string \<Rightarrow> string + string"
  json_loads :: "string \<Rightarrow> pyexc + json"
  json_dumps :: "json \<Rightarrow> string"
  repr :: "json \<Rightarrow> string"

text \<open>
  \<open>bytes_decode rt b\<close> is \<^verbatim>\<open>b.decode()\<close>: the text, or the message of the
  \<^verbatim>\<open>UnicodeDecodeError\<close> it raises. \<open>json_loads rt s\<close> is \<^verbatim>\<open>json.loads(s)\<close>: the
  decoded value, or the exception raised (\<^verbatim>\<open>JSONDecodeError\<close> for malformed text;
  the decoder can also raise \<^verbatim>\<open>RecursionError\<close> and a plain \<^verbatim>\<open>ValueError\<close>).
  \<open>json_dumps rt v\<close> is \<^verbatim>\<open>json.dumps(v, indent=2)\<close> and \<open>repr rt v\<close> is
  \<^verbatim>\<open>repr(v)\<close>. Every class of \<open>exc_class\<close> derives from \<^verbatim>\<open>Exception\<close>.
\<close>

text \<open>
  The message as the callback holds it once line 60 has read the topic: \<open>msg_topic\<close>
  is the \<^verbatim>\<open>str\<close> that \<^verbatim>\<open>msg.topic\<close> returned and \<open>msg_payload\<close> is
  \<^verbatim>\<open>msg.payload\<close>, the bytes. (The read of the topic itself is modelled with
  \<open>on_message_call\<close> below.) The outcome of a call is what it printed and the exception
  that left it, if any.
\<close>

record message =
  msg_topic :: string
  msg_payload :: string

record outcome =
  printed :: "string list"
  raised :: "pyexc option"

definition and_then :: "pyexc + 'a \<Rightarrow> ('a \<Rightarrow> pyexc + 'b) \<Rightarrow> pyexc + 'b" where
  "and_then m f = (case m of Inl e \<Rightarrow> Inl e | Inr a \<Rightarrow> f a)"

definition quoted :: "string \<Rightarrow> string" where
  "quoted s = CHR 0x27 # s @ [CHR 0x27]"

definition type_name :: "json \<Rightarrow> string" where
  "type_name v =
     (case v of
        JNull \<Rightarrow> ''NoneType''
      | JBool _ \<Rightarrow> ''bool''
      | JInt _ \<Rightarrow> ''int''
      | JFloat _ \<Rightarrow> ''float''
      | JStr _ \<Rightarrow> ''str''
      | JList _ \<Rightarrow> ''list''
      | JDict _ \<Rightarrow> ''dict'')"

subsection \<open>Glyphs of the source's string literals\<close>

definition box_rule :: string where  (* U+2500 *)
  "box_rule = [CHR 0xE2, CHR 0x94, CHR 0x80]"

definition envelope :: string where  (* U+1F4E8 *)
  "envelope = [CHR 0xF0, CHR 0x9F, CHR 0x93, CHR 0xA8]"

definition thermometer :: string where  (* U+1F321 U+FE0F *)
  "thermometer = [CHR 0xF0, CHR 0x9F, CHR 0x8C, CHR 0xA1, CHR 0xEF, CHR 0xB8, CHR 0x8F]"

definition droplet :: string where  (* U+1F4A7 *)
  "droplet = [CHR 0xF0, CHR 0x9F, CHR 0x92, CHR 0xA7]"

definition blue_circle :: string where  (* U+1F535 *)
  "blue_circle = [CHR 0xF0, CHR 0x9F, CHR 0x94, CHR 0xB5]"

definition dash_cloud :: string where  (* U+1F4A8 *)
  "dash_cloud = [CHR 0xF0, CHR 0x9F, CHR 0x92, CHR 0xA8]"

definition check_mark :: string where  (* U+2713 *)
  "check_mark = [CHR 0xE2, CHR 0x9C, CHR 0x93]"

definition degree_sign :: string where  (* U+00B0 *)
  "degree_sign = [CHR 0xC2, CHR 0xB0]"

definition green_circle :: string where  (* U+1F7E2 *)
  "green_circle = [CHR 0xF0, CHR 0x9F, CHR 0x9F, CHR 0xA2]"

definition yellow_circle :: string where  (* U+1F7E1 *)
  "yellow_circle = [CHR 0xF0, CHR 0x9F, CHR 0x9F, CHR 0xA1]"

definition orange_circle :: string where  (* U+1F7E0 *)
  "orange_circle = [CHR 0xF0, CHR 0x9F, CHR 0x9F, CHR 0xA0]"

definition red_circle :: string where  (* U+1F534 *)
  "red_circle = [CHR 0xF0, CHR 0x9F, CHR 0x94, CHR 0xB4]"

definition input_numbers :: string where  (* U+1F522 *)
  "input_numbers = [CHR 0xF0, CHR 0x9F, CHR 0x94, CHR 0xA2]"

definition bullseye :: string where  (* U+1F3AF *)
  "bullseye = [CHR 0xF0, CHR 0x9F, CHR 0x8E, CHR 0xAF]"

definition fog :: string where  (* U+1F32B U+FE0F *)
  "fog = [CHR 0xF0, CHR 0x9F, CHR 0x8C, CHR 0xAB, CHR 0xEF, CHR 0xB8, CHR 0x8F]"

definition test_tube :: string where  (* U+1F9EA *)
  "test_tube = [CHR 0xF0, CHR 0x9F, CHR 0xA7, CHR 0xAA]"

definition pager :: string where  (* U+1F4DF *)
  "pager = [CHR 0xF0, CHR 0x9F, CHR 0x93, CHR 0x9F]"

definition warning_sign :: string where  (* U+26A0 U+FE0F *)
  "warning_sign = [CHR 0xE2, CHR 0x9A, CHR 0xA0, CHR 0xEF, CHR 0xB8, CHR 0x8F]"

definition loudspeaker :: string where  (* U+1F4E2 *)
  "loudspeaker = [CHR 0xF0, CHR 0x9F, CHR 0x93, CHR 0xA2]"

subsection \<open>Numbers as text\<close>

text \<open>
  \<open>nat_str\<close> and \<open>int_str\<close> are \<^verbatim>\<open>str\<close> of a Python \<^verbatim>\<open>int\<close>.
  \<open>fixed prec neg num den\<close> is the fixed-point text of the magnitude \<open>num / den\<close> with
  \<open>prec\<close> digits after the point, rounded to the nearest such decimal with ties to the
  even one (CPython formats the exact binary value, correctly rounded); the sign is
  printed whenever it is set, also when the digits round to zero, and with precision 0 no
  point is printed.
\<close>

fun nat_str :: "nat \<Rightarrow> string" where
  "nat_str n =
     (if n < 10 then [''0123456789'' ! n]
      else nat_str (n div 10) @ [''0123456789'' ! (n mod 10)])"

declare nat_str.simps [simp del]

definition int_str :: "int \<Rightarrow> string" where
  "int_str n = (if n < 0 then ''-'' @ nat_str (nat (- n)) else nat_str (nat n))"

definition round_half_even :: "nat \<Rightarrow> nat \<Rightarrow> nat" where
  "round_half_even num den =
     (let q = num div den; r = num mod den
      in if 2 * r < den then q
         else if den < 2 * r then q + 1
         else if even q then q else q + 1)"

definition zero_pad :: "nat \<Rightarrow> string \<Rightarrow> string" where
  "zero_pad width s = replicate (width - length s) CHR ''0'' @ s"

definition fixed :: "nat \<Rightarrow> bool \<Rightarrow> nat \<Rightarrow> nat \<Rightarrow> string" where
  "fixed prec neg num den =
     (let n = round_half_even (num * 10 ^ prec) den
      in (if neg then ''-'' else '''')
         @ nat_str (n div 10 ^ prec)
         @ (if prec = 0 then '''' else ''.'' @ zero_pad prec (nat_str (n mod 10 ^ prec))))"

text \<open>
  The fields of a binary64 pattern. A finite float has the magnitude
  \<open>float_num x / 2 ^ 1074\<close>: \<open>fraction * 2 ^ -1074\<close> for a subnormal and
  \<open>(2 ^ 52 + fraction) * 2 ^ (exponent - 1075)\<close> otherwise.
\<close>

definition float_sign :: "pyfloat \<Rightarrow> bool" where
  "float_sign x = bit x 63"

definition float_exponent :: "pyfloat \<Rightarrow> nat" where
  "float_exponent x = unat (drop_bit 52 x AND 0x7FF)"

definition float_fraction :: "pyfloat \<Rightarrow> nat" where
  "float_fraction x = unat (x AND 0xFFFFFFFFFFFFF)"

definition float_is_nan :: "pyfloat \<Rightarrow> bool" where
  "float_is_nan x = (float_exponent x = 2047 \<and> float_fraction x \<noteq> 0)"

definition float_is_inf :: "pyfloat \<Rightarrow> bool" where
  "float_is_inf x = (float_exponent x = 2047 \<and> float_fraction x = 0)"

definition float_is_finite :: "pyfloat \<Rightarrow> bool" where
  "float_is_finite x = (float_exponent x \<noteq> 2047)"

definition float_num :: "pyfloat \<Rightarrow> nat" where
  "float_num x =
     (if float_exponent x = 0 then float_fraction x
      else (2 ^ 52 + float_fraction x) * 2 ^ (float_exponent x - 1))"

definition float_value :: "pyfloat \<Rightarrow> rat" where
  "float_value x =
     (if float_sign x then - (of_nat (float_num x) / 2 ^ 1074)
      else of_nat (float_num x) / 2 ^ 1074)"

definition float_fixed :: "nat \<Rightarrow> pyfloat \<Rightarrow> string" where
  "float_fixed prec x =
     (if float_is_nan x then ''nan''
      else if float_is_inf x then (if float_sign x then ''-inf'' else ''inf'')
      else fixed prec (float_sign x) (float_num x) (2 ^ 1074))"

text \<open>
  An \<^verbatim>\<open>int\<close> formatted with presentation type \<^verbatim>\<open>f\<close> is first converted to a
  float: to the nearest binary64 value, ties to even, and \<^verbatim>\<open>OverflowError\<close> when that
  is beyond the largest float. \<open>int_to_float a\<close> is the magnitude of the float nearest to
  the natural number \<open>a\<close>.
\<close>

fun bit_length :: "nat \<Rightarrow> nat" where
  "bit_length n = (if n = 0 then 0 else Suc (bit_length (n div 2)))"

declare bit_length.simps [simp del]

definition int_to_float :: "nat \<Rightarrow> nat option" where
  "int_to_float a =
     (let k = bit_length a - 53;
          m = round_half_even a (2 ^ k) * 2 ^ k
      in if m < 2 ^ 1024 then Some m else None)"

definition int_fixed :: "nat \<Rightarrow> int \<Rightarrow> pyexc + string" where
  "int_fixed prec n =
     (case int_to_float (nat \<bar>n\<bar>) of
        None \<Rightarrow> Inl (Exc OverflowError ''int too large to convert to float'')
      | Some m \<Rightarrow> Inr (fixed prec (n < 0) m 1))"

subsection \<open>The operations of Python the callback applies to a decoded value\<close>

text \<open>
  \<open>get payload key dflt\<close> is \<^verbatim>\<open>payload.get(key, default)\<close>. Only a
  \<^verbatim>\<open>dict\<close> has the method, which \<open>dict_get\<close> models: the value stored under the
  key, or the default when the key is absent. On any other value the attribute lookup
  raises \<^verbatim>\<open>AttributeError\<close>.
\<close>

definition dict_get :: "(string \<times> json) list \<Rightarrow> string \<Rightarrow> json \<Rightarrow> json" where
  "dict_get items key dflt = (case map_of items key of Some v \<Rightarrow> v | None \<Rightarrow> dflt)"

definition get :: "json \<Rightarrow> string \<Rightarrow> json \<Rightarrow> pyexc + json" where
  "get payload key dflt =
     (case payload of
        JDict items \<Rightarrow> Inr (dict_get items key dflt)
      | _ \<Rightarrow>
          Inl (Exc AttributeError
                (quoted (type_name payload) @ '' object has no attribute '' @ quoted ''get'')))"

text \<open>
  \<open>format_f prec v\<close> is the replacement field \<^verbatim>\<open>{v:.<prec>f}\<close> of an f-string, that
  is \<^verbatim>\<open>format(v, ".<prec>f")\<close>. Floats, ints and bools (which are ints) accept the
  format; a \<^verbatim>\<open>str\<close> rejects the code \<^verbatim>\<open>f\<close> with \<^verbatim>\<open>ValueError\<close>, and
  \<^verbatim>\<open>None\<close>, lists and dicts reject every non-empty format with \<^verbatim>\<open>TypeError\<close>.
\<close>

definition format_f :: "nat \<Rightarrow> json \<Rightarrow> pyexc + string" where
  "format_f prec v =
     (case v of
        JFloat x \<Rightarrow> Inr (float_fixed prec x)
      | JInt n \<Rightarrow> int_fixed prec n
      | JBool b \<Rightarrow> int_fixed prec (if b then 1 else 0)
      | JStr _ \<Rightarrow>
          Inl (Exc ValueError
                (''Unknown format code '' @ quoted ''f'' @ '' for object of type '' @ quoted ''str''))
      | _ \<Rightarrow>
          Inl (Exc TypeError
                (''unsupported format string passed to '' @ type_name v @ ''.__format__'')))"

text \<open>
  \<open>str rt v\<close> is the replacement field \<^verbatim>\<open>{v}\<close>, that is \<^verbatim>\<open>str(v)\<close>; it never
  raises. For a float, a list and a dict it is \<^verbatim>\<open>repr(v)\<close>.
\<close>

definition str :: "runtime \<Rightarrow> json \<Rightarrow> string" where
  "str rt v =
     (case v of
        JStr s \<Rightarrow> s
      | JInt n \<Rightarrow> int_str n
      | JBool b \<Rightarrow> (if b then ''True'' else ''False'')
      | JNull \<Rightarrow> ''None''
      | _ \<Rightarrow> repr rt v)"

text \<open>
  \<open>le v c\<close> is \<^verbatim>\<open>v <= c\<close> for an int literal \<open>c\<close>. Python compares a float with an
  int by their exact values; every comparison with NaN is false; any other type of \<open>v\<close>
  has no ordering with \<^verbatim>\<open>int\<close> and raises \<^verbatim>\<open>TypeError\<close>.
\<close>

definition float_le_int :: "pyfloat \<Rightarrow> int \<Rightarrow> bool" where
  "float_le_int x c =
     (if float_is_nan x then False
      else if float_is_inf x then float_sign x
      else float_value x \<le> of_int c)"

definition le :: "json \<Rightarrow> int \<Rightarrow> pyexc + bool" where
  "le v c =
     (case v of
        JInt n \<Rightarrow> Inr (n \<le> c)
      | JBool b \<Rightarrow> Inr ((if b then 1 else 0) \<le> c)
      | JFloat x \<Rightarrow> Inr (float_le_int x c)
      | _ \<Rightarrow>
          Inl (Exc TypeError
                (quoted ''<='' @ '' not supported between instances of ''
                 @ quoted (type_name v) @ '' and '' @ quoted ''int'')))"

subsection \<open>The callback\<close>

text \<open>
  \<open>TOPICS\<close> is the module's table of subscriptions: topic and quality of service.
\<close>

definition TOPICS :: "(string \<times> nat) list" where
  "TOPICS =
     [(''sensor/bme680/data'', 0),
      (''sensor/bme680/iaq'', 0),
      (''sensor/bme680/status'', 0),
      (''sensor/bme680/alert'', 0)]"

text \<open>
  A sequence of \<^verbatim>\<open>print(f"...")\<close> statements: each f-string is built, which may raise,
  and then printed. \<open>emit\<close> runs such a sequence and returns what was printed together with
  the exception that stopped it, if any. \<open>line pre field post\<close> is one f-string with a
  single fallible replacement field between two fixed parts.
\<close>

primrec emit :: "(pyexc + string) list \<Rightarrow> string list \<times> pyexc option" where
  "emit [] = ([], None)"
| "emit (l # ls) =
     (case l of
        Inl e \<Rightarrow> ([], Some e)
      | Inr s \<Rightarrow> (case emit ls of (out, exn) \<Rightarrow> (s # out, exn)))"

definition line :: "string \<Rightarrow> pyexc + string \<Rightarrow> string \<Rightarrow> pyexc + string" where
  "line pre field post = and_then field (\<lambda>s. Inr (pre @ s @ post))"

definition get_f :: "json \<Rightarrow> string \<Rightarrow> json \<Rightarrow> nat \<Rightarrow> pyexc + string" where
  \<comment> \<open>the field \<^verbatim>\<open>{payload.get(key, default):.<prec>f}\<close>\<close>
  "get_f payload key dflt prec = and_then (get payload key dflt) (format_f prec)"

definition get_s :: "runtime \<Rightarrow> json \<Rightarrow> string \<Rightarrow> json \<Rightarrow> pyexc + string" where
  \<comment> \<open>the field \<^verbatim>\<open>{payload.get(key, default)}\<close>\<close>
  "get_s rt payload key dflt = and_then (get payload key dflt) (\<lambda>v. Inr (str rt v))"

definition header :: "string \<Rightarrow> string \<Rightarrow> string list" where
  "header timestamp topic =
     [CHR 0x0A # concat (replicate 60 box_rule),
      envelope @ '' ['' @ timestamp @ ''] Topic: '' @ topic,
      concat (replicate 60 box_rule)]"

text \<open>The branch of topic \<^verbatim>\<open>sensor/bme680/data\<close> (source lines 70 to 74).\<close>

definition print_data :: "runtime \<Rightarrow> json \<Rightarrow> string list \<times> pyexc option" where
  "print_data rt payload =
     emit
      [line (thermometer @ ''  Temperature  : '')
         (get_f payload ''temperature'' (JStr ''N/A'') 2) ('' '' @ degree_sign @ ''C''),
       line (droplet @ '' Humidity     : '')
         (get_f payload ''humidity'' (JStr ''N/A'') 2) '' %'',
       line (blue_circle @ '' Pressure     : '')
         (get_f payload ''pressure'' (JStr ''N/A'') 2) '' hPa'',
       line (dash_cloud @ '' Gas Resist.  : '')
         (get_f payload ''gas_resistance'' (JStr ''N/A'') 0) '' Ohms'',
       line (check_mark @ ''  Gas Valid    : '')
         (get_s rt payload ''gas_valid'' (JStr ''N/A'')) '''']"

text \<open>
  The branch of topic \<^verbatim>\<open>sensor/bme680/iaq\<close> (source lines 77 to 95). \<open>indicator\<close> is
  the chain of comparisons that picks the colour for the score.
\<close>

definition indicator :: "json \<Rightarrow> pyexc + string" where
  "indicator iaq_score =
     and_then (le iaq_score 50) (\<lambda>c1.
       if c1 then Inr green_circle
       else and_then (le iaq_score 100) (\<lambda>c2.
         if c2 then Inr yellow_circle
         else and_then (le iaq_score 150) (\<lambda>c3.
           if c3 then Inr orange_circle
           else Inr red_circle)))"

definition print_iaq :: "runtime \<Rightarrow> json \<Rightarrow> string list \<times> pyexc option" where
  "print_iaq rt payload =
     (case get payload ''iaq_score'' (JInt 0) of
        Inl e \<Rightarrow> ([], Some e)
      | Inr iaq_score \<Rightarrow>
     (case get payload ''iaq_text'' (JStr ''Unknown'') of
        Inl e \<Rightarrow> ([], Some e)
      | Inr iaq_text \<Rightarrow>
     (case indicator iaq_score of
        Inl e \<Rightarrow> ([], Some e)
      | Inr ind \<Rightarrow>
          emit
           [line (ind @ '' IAQ Score    : '')
              (format_f 1 iaq_score) ('' ['' @ str rt iaq_text @ '']''),
            line (input_numbers @ '' IAQ Level    : '')
              (get_s rt payload ''iaq_level'' (JStr ''N/A'')) '''',
            line (bullseye @ '' Accuracy     : '')
              (get_s rt payload ''accuracy'' (JStr ''N/A'')) '''',
            line (fog @ ''  CO2 Equiv.   : '')
              (get_f payload ''co2_equivalent'' (JStr ''N/A'') 0) '' ppm'',
            line (test_tube @ '' VOC Equiv.   : '')
              (get_f payload ''voc_equivalent'' (JStr ''N/A'') 2) '' ppm'',
            line (check_mark @ ''  Calibrated   : '')
              (get_s rt payload ''is_calibrated'' (JStr ''N/A'')) ''''])))"

text \<open>
  The branch of topic \<^verbatim>\<open>sensor/bme680/status\<close> (source lines 98 to 102). The test
  \<^verbatim>\<open>status == "online"\<close> holds for that string and for no other value.
\<close>

definition print_status :: "runtime \<Rightarrow> json \<Rightarrow> string list \<times> pyexc option" where
  "print_status rt payload =
     (case get payload ''status'' (JStr ''unknown'') of
        Inl e \<Rightarrow> ([], Some e)
      | Inr status \<Rightarrow>
     (case get payload ''client_id'' (JStr ''unknown'') of
        Inl e \<Rightarrow> ([], Some e)
      | Inr client_id \<Rightarrow>
          (let icon = (if status = JStr ''online'' then green_circle else red_circle)
           in emit
               [Inr (icon @ '' Status: '' @ str rt status),
                Inr (pager @ '' Client ID: '' @ str rt client_id)])))"

text \<open>The branch of topic \<^verbatim>\<open>sensor/bme680/alert\<close> (source lines 105 to 107).\<close>

definition print_alert :: "runtime \<Rightarrow> json \<Rightarrow> string list \<times> pyexc option" where
  "print_alert rt payload =
     emit
      [line (warning_sign @ ''  Alert Type  : '')
         (get_s rt payload ''type'' (JStr ''N/A'')) '''',
       line (loudspeaker @ '' Message     : '')
         (get_s rt payload ''message'' (JStr ''N/A'')) '''',
       line (pager @ '' Client ID   : '')
         (get_s rt payload ''client_id'' (JStr ''N/A'')) '''']"

text \<open>The chain of topic tests (source lines 69 to 110).\<close>

definition print_report :: "runtime \<Rightarrow> string \<Rightarrow> json \<Rightarrow> string list \<times> pyexc option" where
  "print_report rt topic payload =
     (if topic = ''sensor/bme680/data'' then print_data rt payload
      else if topic = ''sensor/bme680/iaq'' then print_iaq rt payload
      else if topic = ''sensor/bme680/status'' then print_status rt payload
      else if topic = ''sensor/bme680/alert'' then print_alert rt payload
      else emit [Inr (''Payload: '' @ json_dumps rt payload)])"

text \<open>
  The body of the \<^verbatim>\<open>try\<close> statement (source lines 63 to 110): what it printed, and the
  exception that ended it, if any.
\<close>

definition try_body :: "runtime \<Rightarrow> string \<Rightarrow> message \<Rightarrow> string list \<times> pyexc option" where
  "try_body rt timestamp msg =
     (case bytes_decode rt (msg_payload msg) of
        Inl m \<Rightarrow> ([], Some (Exc UnicodeDecodeError m))
      | Inr text \<Rightarrow>
     (case json_loads rt text of
        Inl e \<Rightarrow> ([], Some e)
      | Inr payload \<Rightarrow>
          (case print_report rt (msg_topic msg) payload of
             (out, exn) \<Rightarrow> (header timestamp (msg_topic msg) @ out, exn))))"

text \<open>
  The \<^verbatim>\<open>try\<close> statement with its two handlers (source lines 62 to 115), for a
  message whose topic has been read. The first handler decodes the payload again, outside
  any \<^verbatim>\<open>try\<close>; an exception of that call would leave the callback, which is the only
  way \<open>raised\<close> can be set here.
\<close>

definition on_message :: "runtime \<Rightarrow> string \<Rightarrow> message \<Rightarrow> outcome" where
  "on_message rt timestamp msg =
     (case try_body rt timestamp msg of
        (out, None) \<Rightarrow> \<lparr>printed = out, raised = None\<rparr>
      | (out, Some e) \<Rightarrow>
          if exc_class e = JSONDecodeError then
            (case bytes_decode rt (msg_payload msg) of
               Inl m \<Rightarrow> \<lparr>printed = out, raised = Some (Exc UnicodeDecodeError m)\<rparr>
             | Inr text \<Rightarrow> \<lparr>printed = out @ [''Raw message: '' @ text], raised = None\<rparr>)
          else \<lparr>printed = out @ [''Error processing message: '' @ exc_str e], raised = None\<rparr>)"

text \<open>
  The call as the transport makes it. The client library keeps the topic of a received
  message as the bytes of the packet and decodes them as UTF-8 each time
  \<^verbatim>\<open>msg.topic\<close> is read; line 60 reads it before the \<^verbatim>\<open>try\<close> statement. A topic
  that is not valid UTF-8 therefore raises \<^verbatim>\<open>UnicodeDecodeError\<close> out of the
  callback, with nothing printed. With the topic read, the rest of the call is
  \<open>on_message\<close>.
\<close>

record mqtt_message =
  topic_bytes :: string
  payload_bytes :: string

definition on_message_call :: "runtime \<Rightarrow> string \<Rightarrow> mqtt_message \<Rightarrow> outcome" where
  "on_message_call rt timestamp m =
     (case bytes_decode rt (topic_bytes m) of
        Inl err \<Rightarrow> \<lparr>printed = [], raised = Some (Exc UnicodeDecodeError err)\<rparr>
      | Inr topic \<Rightarrow>
          on_message rt timestamp \<lparr>msg_topic = topic, msg_payload = payload_bytes m\<rparr>)"

subsection \<open>Notions the properties are stated with\<close>

text \<open>
  The specification's \<open>categoryOf\<close>: the category a topic string is classified into, by
  exact match against the four registered topics, anything else being \<open>Unknown\<close>. It is
  compared below with the chain of tests of the callback.
\<close>

datatype category = Data | AirQuality | Status | Alert | Unknown

definition categoryOf :: "string \<Rightarrow> category" where
  "categoryOf topic =
     (if topic = ''sensor/bme680/data'' then Data
      else if topic = ''sensor/bme680/iaq'' then AirQuality
      else if topic = ''sensor/bme680/status'' then Status
      else if topic = ''sensor/bme680/alert'' then Alert
      else Unknown)"

text \<open>
  The value of a JSON number: an int, or a float that is neither an infinity nor NaN.
  \<open>tier_glyph\<close> is the specification's rule for the tier of a score, each tier named by
  the glyph that marks it: green for tier 1, yellow for tier 2, orange for tier 3 and red
  for tier 4.
\<close>

definition number_value :: "json \<Rightarrow> rat option" where
  "number_value v =
     (case v of
        JInt n \<Rightarrow> Some (of_int n)
      | JFloat x \<Rightarrow> (if float_is_finite x then Some (float_value x) else None)
      | _ \<Rightarrow> None)"

definition tier_glyph :: "rat \<Rightarrow> string" where
  "tier_glyph s =
     (if s \<le> 50 then green_circle
      else if s \<le> 100 then yellow_circle
      else if s \<le> 150 then orange_circle
      else red_circle)"

text \<open>
  The values that accept the format code \<^verbatim>\<open>f\<close>: ints, floats and, being ints to
  Python, the booleans. Every other value (a string, \<^verbatim>\<open>None\<close>, a list, a dict) makes
  the formatting raise.
\<close>

definition formattable :: "json \<Rightarrow> bool" where
  "formattable v =
     (case v of JInt _ \<Rightarrow> True | JFloat _ \<Rightarrow> True | JBool _ \<Rightarrow> True | _ \<Rightarrow> False)"

text \<open>
  The steps of a branch in the order the callback runs them, each the line it prints or
  the exception it raises. \<open>data_fields\<close> are the five f-strings of source lines 70 to
  74 and \<open>iaq_fields\<close> the six of lines 90 to 95. On the air-quality topic the comparisons
  of the score come first; they print nothing, so they count as a step only when they
  raise. Of a sequence of steps, \<open>printed_before\<close> are the lines of the steps before the
  first that raises and \<open>first_raised\<close> is the exception of that step.
\<close>

definition data_fields :: "runtime \<Rightarrow> json \<Rightarrow> (pyexc + string) list" where
  "data_fields rt payload =
     [line (thermometer @ ''  Temperature  : '')
        (get_f payload ''temperature'' (JStr ''N/A'') 2) ('' '' @ degree_sign @ ''C''),
      line (droplet @ '' Humidity     : '')
        (get_f payload ''humidity'' (JStr ''N/A'') 2) '' %'',
      line (blue_circle @ '' Pressure     : '')
        (get_f payload ''pressure'' (JStr ''N/A'') 2) '' hPa'',
      line (dash_cloud @ '' Gas Resist.  : '')
        (get_f payload ''gas_resistance'' (JStr ''N/A'') 0) '' Ohms'',
      line (check_mark @ ''  Gas Valid    : '')
        (get_s rt payload ''gas_valid'' (JStr ''N/A'')) '''']"

definition iaq_fields :: "runtime \<Rightarrow> json \<Rightarrow> string \<Rightarrow> json \<Rightarrow> json \<Rightarrow> (pyexc + string) list" where
  "iaq_fields rt payload ind iaq_score iaq_text =
     [line (ind @ '' IAQ Score    : '')
        (format_f 1 iaq_score) ('' ['' @ str rt iaq_text @ '']''),
      line (input_numbers @ '' IAQ Level    : '')
        (get_s rt payload ''iaq_level'' (JStr ''N/A'')) '''',
      line (bullseye @ '' Accuracy     : '')
        (get_s rt payload ''accuracy'' (JStr ''N/A'')) '''',
      line (fog @ ''  CO2 Equiv.   : '')
        (get_f payload ''co2_equivalent'' (JStr ''N/A'') 0) '' ppm'',
      line (test_tube @ '' VOC Equiv.   : '')
        (get_f payload ''voc_equivalent'' (JStr ''N/A'') 2) '' ppm'',
      line (check_mark @ ''  Calibrated   : '')
        (get_s rt payload ''is_calibrated'' (JStr ''N/A'')) '''']"

definition iaq_steps :: "runtime \<Rightarrow> (string \<times> json) list \<Rightarrow> (pyexc + string) list" where
  "iaq_steps rt items =
     (case indicator (dict_get items ''iaq_score'' (JInt 0)) of
        Inl e \<Rightarrow> [Inl e]
      | Inr ind \<Rightarrow>
          iaq_fields rt (JDict items) ind
            (dict_get items ''iaq_score'' (JInt 0))
            (dict_get items ''iaq_text'' (JStr ''Unknown'')))"

definition printed_before :: "(pyexc + string) list \<Rightarrow> string list" where
  "printed_before steps = map projr (takeWhile (\<lambda>l. \<not> isl l) steps)"

definition first_raised :: "(pyexc + string) list \<Rightarrow> pyexc option" where
  "first_raised steps = map_option projl (find isl steps)"

text \<open>A printed line is a processing-error line when it starts with the handler's label.\<close>

definition is_error_line :: "string \<Rightarrow> bool" where
  "is_error_line l = (take 26 l = ''Error processing message: '')"

text \<open>
  The worked examples fix the runtime on the one payload they deliver: the payload is
  ASCII, which \<^verbatim>\<open>decode\<close> returns as it stands; \<open>loaded\<close> is what \<^verbatim>\<open>json.loads\<close>
  does with it and \<open>dumped\<close> what \<^verbatim>\<open>json.dumps\<close> returns for the decoded value. No
  example prints a float, a list or a dict with \<^verbatim>\<open>str\<close>, so \<open>repr\<close> is not reached.
  \<open>strict_runtime\<close> differs in one point: the single byte \<^verbatim>\<open>0xFF\<close>, which is not
  UTF-8, makes \<^verbatim>\<open>decode\<close> raise, with CPython's message.
\<close>

definition example_runtime :: "pyexc + json \<Rightarrow> string \<Rightarrow> runtime" where
  "example_runtime loaded dumped =
     \<lparr>bytes_decode = Inr, json_loads = (\<lambda>_. loaded), json_dumps = (\<lambda>_. dumped),
      repr = (\<lambda>_. '''')\<rparr>"

definition strict_runtime :: "pyexc + json \<Rightarrow> string \<Rightarrow> runtime" where
  "strict_runtime loaded dumped =
     \<lparr>bytes_decode =
        (\<lambda>b. if b = [CHR 0xFF]
              then Inl (quoted ''utf-8''
                        @ '' codec can'' @ [CHR 0x27]
                        @ ''t decode byte 0xff in position 0: invalid start byte'')
              else Inr b),
      json_loads = (\<lambda>_. loaded), json_dumps = (\<lambda>_. dumped), repr = (\<lambda>_. '''')\<rparr>"

section \<open>Properties\<close>

subsection \<open>Auxiliary facts\<close>

lemmas glyph_defs = box_rule_def envelope_def thermometer_def droplet_def blue_circle_def
  dash_cloud_def check_mark_def degree_sign_def green_circle_def yellow_circle_def
  orange_circle_def red_circle_def input_numbers_def bullseye_def fog_def test_tube_def
  pager_def warning_sign_def loudspeaker_def

lemma and_then_Inl: "and_then m f = Inl e \<longleftrightarrow> m = Inl e \<or> (\<exists>a. m = Inr a \<and> f a = Inl e)"
  by (cases m) (simp_all add: and_then_def)

lemma and_then_Inr [simp]: "and_then (Inr a) f = f a"
  by (simp add: and_then_def)

lemma and_then_Inl_simp [simp]: "and_then (Inl e) f = Inl e"
  by (simp add: and_then_def)

lemma line_Inl: "line pre field post = Inl e \<longleftrightarrow> field = Inl e"
  by (cases field) (simp_all add: line_def)

lemma Inl_line: "Inl e = line pre field post \<longleftrightarrow> field = Inl e"
  by (cases field) (auto simp: line_def)

lemma emit_raises: "emit ls = (out, Some e) \<Longrightarrow> Inl e \<in> set ls"
  by (induction ls arbitrary: out) (auto split: sum.splits prod.splits)

lemma emit_printed: "emit ls = (out, exn) \<Longrightarrow> s \<in> set out \<Longrightarrow> Inr s \<in> set ls"
  by (induction ls arbitrary: out) (auto split: sum.splits prod.splits)

lemma get_raises: "get payload key dflt = Inl e \<Longrightarrow> exc_class e = AttributeError"
  by (cases payload) (auto simp: get_def)

lemma get_dict [simp]: "get (JDict items) key dflt = Inr (dict_get items key dflt)"
  by (simp add: get_def)

lemma int_fixed_raises: "int_fixed prec n = Inl e \<Longrightarrow> exc_class e = OverflowError"
  by (auto simp: int_fixed_def split: option.splits)

lemma format_f_raises:
  "format_f prec v = Inl e \<Longrightarrow> exc_class e \<in> {ValueError, TypeError, OverflowError}"
  by (cases v) (auto simp: format_f_def dest: int_fixed_raises)

lemma le_raises: "le v c = Inl e \<Longrightarrow> exc_class e = TypeError"
  by (cases v) (auto simp: le_def)

lemma indicator_raises: "indicator v = Inl e \<Longrightarrow> exc_class e = TypeError"
  by (auto simp: indicator_def and_then_Inl dest: le_raises split: if_splits)

lemma get_f_raises:
  "get_f payload key dflt prec = Inl e \<Longrightarrow> exc_class e \<noteq> JSONDecodeError"
  by (auto simp: get_f_def and_then_Inl dest: get_raises format_f_raises)

lemma get_s_raises:
  "get_s rt payload key dflt = Inl e \<Longrightarrow> exc_class e \<noteq> JSONDecodeError"
  by (auto simp: get_s_def and_then_Inl dest: get_raises)

lemma print_data_raises:
  "print_data rt payload = (out, Some e) \<Longrightarrow> exc_class e \<noteq> JSONDecodeError"
  unfolding print_data_def
  by (drule emit_raises) (auto simp: Inl_line dest: get_f_raises get_s_raises)

lemma print_iaq_raises:
  "print_iaq rt payload = (out, Some e) \<Longrightarrow> exc_class e \<noteq> JSONDecodeError"
  unfolding print_iaq_def
  by (auto split: sum.splits simp del: emit.simps simp: Inl_line
      dest!: emit_raises get_raises indicator_raises get_f_raises get_s_raises format_f_raises)

lemma print_status_raises:
  "print_status rt payload = (out, Some e) \<Longrightarrow> exc_class e \<noteq> JSONDecodeError"
  unfolding print_status_def
  by (auto split: sum.splits dest: get_raises)

lemma print_alert_raises:
  "print_alert rt payload = (out, Some e) \<Longrightarrow> exc_class e \<noteq> JSONDecodeError"
  unfolding print_alert_def
  by (drule emit_raises) (auto simp: Inl_line dest: get_s_raises)

lemma print_report_raises:
  "print_report rt topic payload = (out, Some e) \<Longrightarrow> exc_class e \<noteq> JSONDecodeError"
  unfolding print_report_def
  by (auto split: if_splits
      dest: print_data_raises print_iaq_raises print_status_raises print_alert_raises)

lemma on_message_completed:
  assumes "bytes_decode rt (msg_payload msg) = Inr text"
    and "json_loads rt text = Inr payload"
    and "print_report rt (msg_topic msg) payload = (out, None)"
  shows "on_message rt timestamp msg =
           \<lparr>printed = header timestamp (msg_topic msg) @ out, raised = None\<rparr>"
  using assms by (simp add: on_message_def try_body_def)

lemma on_message_caught:
  assumes "bytes_decode rt (msg_payload msg) = Inr text"
    and "json_loads rt text = Inr payload"
    and "print_report rt (msg_topic msg) payload = (out, Some e)"
  shows "on_message rt timestamp msg =
           \<lparr>printed = header timestamp (msg_topic msg) @ out
                        @ [''Error processing message: '' @ exc_str e],
            raised = None\<rparr>"
  using assms print_report_raises [OF assms(3)] by (simp add: on_message_def try_body_def)

lemma try_body_json_error:
  assumes "try_body rt timestamp msg = (out, Some e)" and "exc_class e = JSONDecodeError"
  shows "\<exists>decoded. bytes_decode rt (msg_payload msg) = Inr decoded
           \<and> json_loads rt decoded = Inl e \<and> out = []"
  using assms
  by (auto simp: try_body_def split: sum.splits prod.splits dest: print_report_raises)

lemma status_outcome:
  assumes "bytes_decode rt (msg_payload msg) = Inr text"
    and "json_loads rt text = Inr (JDict items)"
    and "msg_topic msg = ''sensor/bme680/status''"
  shows "on_message rt timestamp msg =
     \<lparr>printed = header timestamp ''sensor/bme680/status'' @
        [(if dict_get items ''status'' (JStr ''unknown'') = JStr ''online''
          then green_circle else red_circle)
           @ '' Status: '' @ str rt (dict_get items ''status'' (JStr ''unknown'')),
         pager @ '' Client ID: '' @ str rt (dict_get items ''client_id'' (JStr ''unknown''))],
      raised = None\<rparr>"
proof -
  have "print_report rt (msg_topic msg) (JDict items) =
      ([(if dict_get items ''status'' (JStr ''unknown'') = JStr ''online''
          then green_circle else red_circle)
           @ '' Status: '' @ str rt (dict_get items ''status'' (JStr ''unknown'')),
         pager @ '' Client ID: '' @ str rt (dict_get items ''client_id'' (JStr ''unknown''))], None)"
    using assms(3) by (simp add: print_report_def print_status_def)
  from on_message_completed [OF assms(1,2) this] assms(3) show ?thesis by simp
qed

lemma float_le_int_finite:
  "float_is_finite x \<Longrightarrow> float_le_int x c \<longleftrightarrow> float_value x \<le> of_int c"
  by (simp add: float_le_int_def float_is_finite_def float_is_nan_def float_is_inf_def)

lemma le_number: "number_value v = Some s \<Longrightarrow> le v c = Inr (s \<le> of_int c)"
  by (cases v) (auto simp: number_value_def le_def float_le_int_finite split: if_splits)

lemma glyphs_distinct: "distinct [green_circle, yellow_circle, orange_circle, red_circle]"
  by (simp add: green_circle_def yellow_circle_def orange_circle_def red_circle_def)

lemma categoryOf_Unknown: "categoryOf topic = Unknown \<longleftrightarrow> topic \<notin> set (map fst TOPICS)"
  by (simp add: categoryOf_def TOPICS_def)

lemma print_report_by_category:
  "print_report rt topic payload =
     (case categoryOf topic of
        Data \<Rightarrow> print_data rt payload
      | AirQuality \<Rightarrow> print_iaq rt payload
      | Status \<Rightarrow> print_status rt payload
      | Alert \<Rightarrow> print_alert rt payload
      | Unknown \<Rightarrow> ([''Payload: '' @ json_dumps rt payload], None))"
  by (simp add: print_report_def categoryOf_def)

lemma emit_stops:
  "i < length ls \<Longrightarrow> ls ! i = Inl e0 \<Longrightarrow> \<exists>out e. emit ls = (out, Some e) \<and> length out \<le> i"
proof (induction ls arbitrary: i)
  case Nil
  then show ?case by simp
next
  case (Cons l ls)
  show ?case
  proof (cases l)
    case (Inl e)
    then show ?thesis by simp
  next
    case (Inr s)
    with Cons.prems obtain j where j: "i = Suc j" "j < length ls" "ls ! j = Inl e0"
      by (cases i) auto
    from Cons.IH [OF j(2,3)] obtain out e where "emit ls = (out, Some e)" "length out \<le> j"
      by blast
    with Inr j(1) show ?thesis by simp
  qed
qed

lemma format_f_not_number:
  "\<not> formattable v \<Longrightarrow> \<exists>e. format_f prec v = Inl e"
  by (cases v) (simp_all add: formattable_def format_f_def)

lemma le_not_number: "\<not> formattable v \<Longrightarrow> \<exists>e. le v c = Inl e"
  by (cases v) (simp_all add: formattable_def le_def)

lemma indicator_not_number: "\<not> formattable v \<Longrightarrow> \<exists>e. indicator v = Inl e"
  using le_not_number [of v 50] by (auto simp: indicator_def)

lemma get_f_not_number:
  "map_of items key = Some v \<Longrightarrow> \<not> formattable v \<Longrightarrow> \<exists>e. get_f (JDict items) key dflt prec = Inl e"
  using format_f_not_number [of v prec] by (auto simp: get_f_def dict_get_def)

lemma get_f_absent:
  "map_of items key = None \<Longrightarrow>
   get_f (JDict items) key (JStr ''N/A'') prec =
     Inl (Exc ValueError
           (''Unknown format code '' @ quoted ''f'' @ '' for object of type '' @ quoted ''str''))"
  by (simp add: get_f_def dict_get_def format_f_def)

lemma not_error_line_Cons: "c \<noteq> CHR ''E'' \<Longrightarrow> \<not> is_error_line (c # l)"
  by (simp add: is_error_line_def)

lemma concat_replicate_Cons:
  "0 < n \<Longrightarrow> concat (replicate n (c # cs)) = c # cs @ concat (replicate (n - 1) (c # cs))"
  by (cases n) simp_all

lemma rule_no_error_line: "\<not> is_error_line (concat (replicate 60 box_rule))"
proof -
  have "\<exists>rest. concat (replicate 60 box_rule) = CHR 0xE2 # rest"
    unfolding box_rule_def by (subst concat_replicate_Cons) simp_all
  then obtain rest where r: "concat (replicate 60 box_rule) = CHR 0xE2 # rest"
    by blast
  show ?thesis
    unfolding r by (rule not_error_line_Cons) simp
qed

lemma header_no_error_line: "list_all (\<lambda>l. \<not> is_error_line l) (header timestamp topic)"
  using rule_no_error_line
  by (simp add: header_def envelope_def not_error_line_Cons)

lemmas float_defs = float_fixed_def float_is_nan_def float_is_inf_def float_sign_def
  float_exponent_def float_fraction_def float_num_def

lemma format_zero: "format_f (Suc 0) (JInt 0) = Inr ''0.0''"
  by (simp add: format_f_def int_fixed_def int_to_float_def bit_length.simps
      round_half_even_def fixed_def nat_str.simps zero_pad_def)

lemma fixed_21_5: "float_fixed 2 0x4035800000000000 = ''21.50''"
  by (simp add: float_defs round_half_even_def fixed_def nat_str.simps zero_pad_def)

lemma Inr_line: "Inr s = line pre field post \<longleftrightarrow> (\<exists>x. field = Inr x \<and> s = pre @ x @ post)"
  by (cases field) (auto simp: line_def)

lemma indicator_glyph:
  "indicator v = Inr g \<Longrightarrow> g \<in> {green_circle, yellow_circle, orange_circle, red_circle}"
  by (auto simp: indicator_def and_then_def split: sum.splits if_splits)

lemma print_data_no_error_line:
  assumes "print_data rt payload = (out, exn)"
  shows "list_all (\<lambda>l. \<not> is_error_line l) out"
proof -
  have "\<not> is_error_line s" if "s \<in> set out" for s
    using emit_printed [OF assms [unfolded print_data_def] that]
    by (auto simp: Inr_line glyph_defs not_error_line_Cons)
  then show ?thesis by (simp add: list_all_iff)
qed

lemma print_iaq_no_error_line:
  assumes "print_iaq rt payload = (out, exn)"
  shows "list_all (\<lambda>l. \<not> is_error_line l) out"
proof (cases "indicator (case get payload ''iaq_score'' (JInt 0) of Inr v \<Rightarrow> v | Inl _ \<Rightarrow> JNull)")
  case (Inl e)
  with assms have "out = []"
    by (auto simp: print_iaq_def split: sum.splits)
  then show ?thesis by simp
next
  case (Inr ind)
  have "\<not> is_error_line s" if "s \<in> set out" for s
  proof (cases "get payload ''iaq_score'' (JInt 0)")
    case (Inl e)
    with assms that show ?thesis by (simp add: print_iaq_def)
  next
    case score: (Inr iaq_score)
    show ?thesis
    proof (cases "get payload ''iaq_text'' (JStr ''Unknown'')")
      case (Inl e)
      with assms that score show ?thesis by (simp add: print_iaq_def)
    next
      case label: (Inr iaq_text)
      from Inr score have ind: "indicator iaq_score = Inr ind" by simp
      from assms score label ind
      have "emit
           [line (ind @ '' IAQ Score    : '')
              (format_f 1 iaq_score) ('' ['' @ str rt iaq_text @ '']''),
            line (input_numbers @ '' IAQ Level    : '')
              (get_s rt payload ''iaq_level'' (JStr ''N/A'')) '''',
            line (bullseye @ '' Accuracy     : '')
              (get_s rt payload ''accuracy'' (JStr ''N/A'')) '''',
            line (fog @ ''  CO2 Equiv.   : '')
              (get_f payload ''co2_equivalent'' (JStr ''N/A'') 0) '' ppm'',
            line (test_tube @ '' VOC Equiv.   : '')
              (get_f payload ''voc_equivalent'' (JStr ''N/A'') 2) '' ppm'',
            line (check_mark @ ''  Calibrated   : '')
              (get_s rt payload ''is_calibrated'' (JStr ''N/A'')) ''''] = (out, exn)"
        by (simp add: print_iaq_def del: emit.simps)
      from emit_printed [OF this that] indicator_glyph [OF ind] show ?thesis
        by (auto simp: Inr_line glyph_defs not_error_line_Cons)
    qed
  qed
  then show ?thesis by (simp add: list_all_iff)
qed

lemma print_data_stops:
  assumes "key \<in> set [''temperature'', ''humidity'', ''pressure'', ''gas_resistance'']"
    and "\<And>prec. \<exists>e. get_f payload key (JStr ''N/A'') prec = Inl e"
  shows "\<exists>out e. print_data rt payload = (out, Some e)"
proof -
  let ?ls = "[line (thermometer @ ''  Temperature  : '')
         (get_f payload ''temperature'' (JStr ''N/A'') 2) ('' '' @ degree_sign @ ''C''),
       line (droplet @ '' Humidity     : '')
         (get_f payload ''humidity'' (JStr ''N/A'') 2) '' %'',
       line (blue_circle @ '' Pressure     : '')
         (get_f payload ''pressure'' (JStr ''N/A'') 2) '' hPa'',
       line (dash_cloud @ '' Gas Resist.  : '')
         (get_f payload ''gas_resistance'' (JStr ''N/A'') 0) '' Ohms'',
       line (check_mark @ ''  Gas Valid    : '')
         (get_s rt payload ''gas_valid'' (JStr ''N/A'')) '''']"
  from assms obtain i e0 where "i < length ?ls" "?ls ! i = Inl e0"
  proof -
    from assms(1) consider "key = ''temperature''" | "key = ''humidity''"
      | "key = ''pressure''" | "key = ''gas_resistance''"
      by auto
    then show ?thesis
    proof cases
      case 1
      with assms(2) [of 2] obtain e where "?ls ! 0 = Inl e" by (auto simp: line_Inl)
      with that [of 0 e] show ?thesis by simp
    next
      case 2
      with assms(2) [of 2] obtain e where "?ls ! 1 = Inl e" by (auto simp: line_Inl)
      with that [of 1 e] show ?thesis by simp
    next
      case 3
      with assms(2) [of 2] obtain e where "?ls ! 2 = Inl e" by (auto simp: line_Inl)
      with that [of 2 e] show ?thesis by simp
    next
      case 4
      with assms(2) [of 0] obtain e where "?ls ! 3 = Inl e" by (auto simp: line_Inl)
      with that [of 3 e] show ?thesis by simp
    qed
  qed
  from emit_stops [OF this] show ?thesis
    unfolding print_data_def by blast
qed

lemma print_iaq_stops:
  assumes "key \<in> set [''iaq_score'', ''co2_equivalent'', ''voc_equivalent'']"
    and "map_of items key = Some v" and "\<not> formattable v"
  shows "\<exists>out e. print_iaq rt (JDict items) = (out, Some e)"
proof (cases "indicator (dict_get items ''iaq_score'' (JInt 0))")
  case (Inl e)
  then show ?thesis by (simp add: print_iaq_def)
next
  case (Inr ind)
  let ?ls = "[line (ind @ '' IAQ Score    : '')
              (format_f 1 (dict_get items ''iaq_score'' (JInt 0)))
              ('' ['' @ str rt (dict_get items ''iaq_text'' (JStr ''Unknown'')) @ '']''),
            line (input_numbers @ '' IAQ Level    : '')
              (get_s rt (JDict items) ''iaq_level'' (JStr ''N/A'')) '''',
            line (bullseye @ '' Accuracy     : '')
              (get_s rt (JDict items) ''accuracy'' (JStr ''N/A'')) '''',
            line (fog @ ''  CO2 Equiv.   : '')
              (get_f (JDict items) ''co2_equivalent'' (JStr ''N/A'') 0) '' ppm'',
            line (test_tube @ '' VOC Equiv.   : '')
              (get_f (JDict items) ''voc_equivalent'' (JStr ''N/A'') 2) '' ppm'',
            line (check_mark @ ''  Calibrated   : '')
              (get_s rt (JDict items) ''is_calibrated'' (JStr ''N/A'')) '''']"
  have run: "print_iaq rt (JDict items) = emit ?ls"
    using Inr by (simp add: print_iaq_def del: emit.simps)
  from assms(1) consider "key = ''iaq_score''" | "key = ''co2_equivalent''"
    | "key = ''voc_equivalent''"
    by auto
  then obtain i e0 where "i < length ?ls" "?ls ! i = Inl e0"
  proof cases
    case 1
    with assms(2) have "dict_get items ''iaq_score'' (JInt 0) = v"
      by (simp add: dict_get_def)
    with indicator_not_number [OF assms(3)] Inr show ?thesis by simp
  next
    case 2
    with get_f_not_number [OF assms(2,3), of "JStr ''N/A''" 0]
    obtain e where "?ls ! 3 = Inl e" by (auto simp: line_Inl)
    with that [of 3 e] show ?thesis by simp
  next
    case 3
    with get_f_not_number [OF assms(2,3), of "JStr ''N/A''" 2]
    obtain e where "?ls ! 4 = Inl e" by (auto simp: line_Inl)
    with that [of 4 e] show ?thesis by simp
  qed
  from emit_stops [OF this] run show ?thesis by auto
qed

lemma header_length [simp]: "length (header timestamp topic) = 3"
  by (simp add: header_def)

lemma emit_Inr: "emit (Inr s # ls) = (s # fst (emit ls), snd (emit ls))"
  by (simp add: case_prod_beta)

lemma indicator_zero: "indicator (JInt 0) = Inr green_circle"
  by (simp add: indicator_def le_def)

lemma emit_steps: "emit steps = (printed_before steps, first_raised steps)"
proof (induction steps)
  case Nil
  then show ?case by (simp add: printed_before_def first_raised_def)
next
  case (Cons l ls)
  then show ?case
    by (cases l) (simp_all add: printed_before_def first_raised_def)
qed

lemma print_data_steps: "print_data rt payload = emit (data_fields rt payload)"
  by (simp add: print_data_def data_fields_def del: emit.simps)

lemma print_iaq_steps: "print_iaq rt (JDict items) = emit (iaq_steps rt items)"
  by (simp add: print_iaq_def iaq_steps_def iaq_fields_def del: emit.simps split: sum.splits)
    simp

lemma bit_length_le: "a < 2 ^ k \<Longrightarrow> bit_length a \<le> k"
proof (induction k arbitrary: a)
  case 0
  then show ?case by (simp add: bit_length.simps)
next
  case (Suc k)
  then have "a div 2 < 2 ^ k" by simp
  from Suc.IH [OF this] show ?case
    by (subst bit_length.simps) simp
qed

lemma int_to_float_exact:
  assumes "a < 2 ^ 53"
  shows "int_to_float a = Some a"
proof -
  have k: "bit_length a - 53 = 0"
    using bit_length_le [OF assms] by simp
  have m: "round_half_even a (2 ^ 0) * 2 ^ 0 = a"
    by (simp add: round_half_even_def)
  have "(2::nat) ^ 53 < 2 ^ 1024"
    by (rule power_strict_increasing) simp_all
  with assms have big: "a < 2 ^ 1024"
    by (rule less_trans)
  show ?thesis
    by (simp only: int_to_float_def Let_def k m big if_True)
qed

lemma format_f_number:
  assumes "number_value v = Some s"
    and "(\<exists>x. v = JFloat x) \<or> \<bar>s\<bar> < 2 ^ 53"
  shows "\<exists>digits. format_f prec v = Inr digits"
proof (cases v)
  case (JInt n)
  with assms(1) have "s = of_int n" by (simp add: number_value_def)
  with assms(2) JInt have "(of_int \<bar>n\<bar> :: rat) < 2 ^ 53"
    by (simp only: of_int_abs json.distinct simp_thms)
  then have "\<bar>n\<bar> < 2 ^ 53"
    by (simp only: of_int_less_numeral_power_cancel_iff)
  then have "nat \<bar>n\<bar> < 2 ^ 53" by simp
  from int_to_float_exact [OF this] JInt show ?thesis
    by (simp add: format_f_def int_fixed_def)
next
  case (JFloat x)
  then show ?thesis by (simp add: format_f_def)
qed (use assms(1) in \<open>simp_all add: number_value_def\<close>)

lemma indicator_number: "number_value v = Some s \<Longrightarrow> indicator v = Inr (tier_glyph s)"
  using le_number [of v s 50] le_number [of v s 100] le_number [of v s 150]
  by (simp add: indicator_def tier_glyph_def)

lemma iaq_score_line:
  assumes "bytes_decode rt (msg_payload msg) = Inr text"
    and "json_loads rt text = Inr (JDict items)"
    and "msg_topic msg = ''sensor/bme680/iaq''"
    and "indicator (dict_get items ''iaq_score'' (JInt 0)) = Inr ind"
  shows "raised (on_message rt timestamp msg) = None
    \<and> take 4 (printed (on_message rt timestamp msg))
        = header timestamp ''sensor/bme680/iaq'' @
          [case format_f 1 (dict_get items ''iaq_score'' (JInt 0)) of
             Inr digits \<Rightarrow>
               ind @ '' IAQ Score    : '' @ digits @ '' [''
                 @ str rt (dict_get items ''iaq_text'' (JStr ''Unknown'')) @ '']''
           | Inl e \<Rightarrow> ''Error processing message: '' @ exc_str e]"
proof -
  let ?score = "dict_get items ''iaq_score'' (JInt 0)"
  let ?label = "dict_get items ''iaq_text'' (JStr ''Unknown'')"
  let ?rest = "tl (iaq_fields rt (JDict items) ind ?score ?label)"
  have steps: "iaq_steps rt items
      = line (ind @ '' IAQ Score    : '') (format_f 1 ?score) ('' ['' @ str rt ?label @ '']'')
        # ?rest"
    using assms(4) by (simp add: iaq_steps_def iaq_fields_def)
  from assms(3) have report: "print_report rt (msg_topic msg) (JDict items)
      = emit (iaq_steps rt items)"
    by (simp add: print_report_def print_iaq_steps)
  show ?thesis
  proof (cases "format_f 1 ?score")
    case (Inl e)
    with steps report have "print_report rt (msg_topic msg) (JDict items) = ([], Some e)"
      by (simp add: line_def)
    from on_message_caught [OF assms(1,2) this, of timestamp] assms(3) Inl show ?thesis
      by simp
  next
    case (Inr digits)
    obtain out exn where rest: "emit ?rest = (out, exn)"
      by (cases "emit ?rest")
    let ?l = "ind @ '' IAQ Score    : '' @ digits @ '' ['' @ str rt ?label @ '']''"
    from steps report Inr rest
    have r: "print_report rt (msg_topic msg) (JDict items) = (?l # out, exn)"
      by (simp add: line_def)
    show ?thesis
    proof (cases exn)
      case None
      with on_message_completed [OF assms(1,2), of "?l # out" timestamp] r assms(3) Inr
      show ?thesis by simp
    next
      case (Some e)
      with on_message_caught [OF assms(1,2), of "?l # out" e timestamp] r assms(3) Inr
      show ?thesis by simp
    qed
  qed
qed

lemma fixed_small_int:
  "int_fixed (Suc 0) 50 = Inr ''50.0''" "int_fixed (Suc 0) 51 = Inr ''51.0''"
  "int_fixed (Suc 0) 100 = Inr ''100.0''" "int_fixed (Suc 0) 101 = Inr ''101.0''"
  "int_fixed (Suc 0) 150 = Inr ''150.0''" "int_fixed (Suc 0) 151 = Inr ''151.0''"
  by (simp_all add: int_fixed_def int_to_float_exact
      round_half_even_def fixed_def nat_str.simps zero_pad_def)

lemma indicator_51: "indicator (JInt 51) = Inr yellow_circle"
  by (simp add: indicator_def le_def)

lemma on_message_converts:
  "on_message rt timestamp msg =
     \<lparr>printed = fst (try_body rt timestamp msg) @
        (case snd (try_body rt timestamp msg) of
           None \<Rightarrow> []
         | Some e \<Rightarrow>
             [if exc_class e = JSONDecodeError
              then ''Raw message: ''
                     @ (case bytes_decode rt (msg_payload msg) of Inr text \<Rightarrow> text | Inl _ \<Rightarrow> [])
              else ''Error processing message: '' @ exc_str e]),
      raised = None\<rparr>"
proof (cases "try_body rt timestamp msg")
  case (Pair out exn)
  show ?thesis
  proof (cases exn)
    case None
    with Pair show ?thesis by (simp add: on_message_def)
  next
    case (Some e)
    show ?thesis
    proof (cases "exc_class e = JSONDecodeError")
      case True
      with Pair Some obtain decoded where "bytes_decode rt (msg_payload msg) = Inr decoded"
        using try_body_json_error by blast
      with Pair Some True show ?thesis by (simp add: on_message_def)
    next
      case False
      with Pair Some show ?thesis by (simp add: on_message_def)
    qed
  qed
qed

lemma on_message_call_decoded:
  "bytes_decode rt (topic_bytes m) = Inr topic \<Longrightarrow>
   raised (on_message_call rt timestamp m) = None"
  by (simp add: on_message_call_def on_message_converts)

lemma on_message_call_escapes:
  "bytes_decode rt (topic_bytes m) = Inl err \<Longrightarrow>
   on_message_call rt timestamp m
     = \<lparr>printed = [], raised = Some (Exc UnicodeDecodeError err)\<rparr>"
  by (simp add: on_message_call_def)

subsection \<open>The data topic: an absent field\<close>

text \<open>
  \<^bold>\<open>Claim C1.\<close> The claim is that a field absent from a data payload is printed as
  \<^verbatim>\<open>N/A\<close> and that nothing is raised. The callback does ask for the default
  \<^verbatim>\<open>'N/A'\<close>, but for temperature, humidity, pressure and gas resistance it formats
  the result with \<^verbatim>\<open>.2f\<close> or \<^verbatim>\<open>.0f\<close>, which a string rejects (lemma
  \<open>get_f_absent\<close>: the field raises \<^verbatim>\<open>ValueError\<close> whenever the key is absent). Only
  \<^verbatim>\<open>gas_valid\<close>, printed without a format, shows the default. The theorem runs the
  callback on the document
  \<^verbatim>\<open>{"temperature": 21.5, "pressure": 1013.25, "gas_resistance": 50000, "gas_valid": true}\<close>,
  which lacks the humidity: after the header and the temperature line the report ends
  with the processing-error line; no humidity line and no later line is printed.
\<close>

theorem data_missing_humidity_fails:
  "on_message
     (example_runtime
        (Inr (JDict [(''temperature'', JFloat 0x4035800000000000),
                     (''pressure'', JFloat 0x408FAA0000000000),
                     (''gas_resistance'', JInt 50000),
                     (''gas_valid'', JBool True)])) '''')
     ''2024-05-01 12:00:00''
     \<lparr>msg_topic = ''sensor/bme680/data'',
      msg_payload = ''{\"temperature\": 21.5, \"pressure\": 1013.25, \"gas_resistance\": 50000, \"gas_valid\": true}''\<rparr>
   = \<lparr>printed = header ''2024-05-01 12:00:00'' ''sensor/bme680/data'' @
        [thermometer @ ''  Temperature  : 21.50 '' @ degree_sign @ ''C'',
         ''Error processing message: Unknown format code '' @ quoted ''f''
           @ '' for object of type '' @ quoted ''str''],
      raised = None\<rparr>"
proof -
  let ?items = "[(''temperature'', JFloat 0x4035800000000000),
                 (''pressure'', JFloat 0x408FAA0000000000),
                 (''gas_resistance'', JInt 50000),
                 (''gas_valid'', JBool True)]"
  let ?rt = "example_runtime (Inr (JDict ?items)) ''''"
  have "print_report ?rt ''sensor/bme680/data'' (JDict ?items) =
          ([thermometer @ ''  Temperature  : 21.50 '' @ degree_sign @ ''C''],
           Some (Exc ValueError (''Unknown format code '' @ quoted ''f''
             @ '' for object of type '' @ quoted ''str'')))"
    by (simp add: print_report_def print_data_def line_def get_f_def dict_get_def
        fixed_21_5 get_f_absent [unfolded get_f_def dict_get_def, simplified] format_f_def)
  then show ?thesis
    by (simp add: on_message_def try_body_def example_runtime_def)
qed

subsection \<open>The air-quality topic: the tier of a score\<close>

text \<open>
  \<^bold>\<open>Claim C3.\<close> Take a message on \<^verbatim>\<open>sensor/bme680/iaq\<close> whose payload decodes to a dict
  in which the score (the value under \<^verbatim>\<open>iaq_score\<close>, or the default 0) is a JSON
  number of value \<open>s\<close>: an int, or a finite float, compared by its exact value. The four
  tiers are marked by four different glyphs, and the tier of \<open>s\<close> is \<open>tier_glyph s\<close>:
  green when \<open>s \<le> 50\<close>, yellow when \<open>50 < s \<le> 100\<close>, orange when
  \<open>100 < s \<le> 150\<close>, red when \<open>150 < s\<close>, every threshold belonging to the lower tier.
  The callback's comparisons select that glyph, nothing is raised, and the output starts
  with the header followed by the score line, which opens with the glyph of the tier and
  shows the score with one decimal and the label. The score is formatted whenever it is a
  float or an int below \<open>2 ^ 53\<close> in magnitude; an int too large for a float makes the
  formatting raise, and then the fourth line is the processing-error line instead. The
  witness runs the callback on the scores 50, 51, 100, 101, 150 and 151.
\<close>

theorem iaq_tier_selected:
  assumes "bytes_decode rt (msg_payload msg) = Inr text"
    and "json_loads rt text = Inr (JDict items)"
    and "msg_topic msg = ''sensor/bme680/iaq''"
    and "number_value (dict_get items ''iaq_score'' (JInt 0)) = Some s"
  shows "distinct [green_circle, yellow_circle, orange_circle, red_circle]
    \<and> indicator (dict_get items ''iaq_score'' (JInt 0)) = Inr (tier_glyph s)
    \<and> raised (on_message rt timestamp msg) = None
    \<and> take 4 (printed (on_message rt timestamp msg))
        = header timestamp ''sensor/bme680/iaq'' @
          [case format_f 1 (dict_get items ''iaq_score'' (JInt 0)) of
             Inr digits \<Rightarrow>
               tier_glyph s @ '' IAQ Score    : '' @ digits @ '' [''
                 @ str rt (dict_get items ''iaq_text'' (JStr ''Unknown'')) @ '']''
           | Inl e \<Rightarrow> ''Error processing message: '' @ exc_str e]
    \<and> ((\<exists>x. dict_get items ''iaq_score'' (JInt 0) = JFloat x) \<or> \<bar>s\<bar> < 2 ^ 53
         \<longrightarrow> (\<exists>digits. format_f 1 (dict_get items ''iaq_score'' (JInt 0)) = Inr digits))"
proof -
  note ind = indicator_number [OF assms(4)]
  from iaq_score_line [OF assms(1,2,3) ind, of timestamp] glyphs_distinct ind
    format_f_number [OF assms(4), of 1]
  show ?thesis by blast
qed

theorem iaq_tier_selected_witness:
  "(let fourth = (\<lambda>n. printed (on_message
          (example_runtime (Inr (JDict [(''iaq_score'', JInt n)])) '''')
          ''2024-05-01 12:00:00''
          \<lparr>msg_topic = ''sensor/bme680/iaq'',
           msg_payload = ''{\"iaq_score\": '' @ int_str n @ ''}''\<rparr>) ! 3)
    in map fourth [50, 51, 100, 101, 150, 151]
       = [green_circle @ '' IAQ Score    : 50.0 [Unknown]'',
          yellow_circle @ '' IAQ Score    : 51.0 [Unknown]'',
          yellow_circle @ '' IAQ Score    : 100.0 [Unknown]'',
          orange_circle @ '' IAQ Score    : 101.0 [Unknown]'',
          orange_circle @ '' IAQ Score    : 150.0 [Unknown]'',
          red_circle @ '' IAQ Score    : 151.0 [Unknown]''])"
proof -
  have fourth: "printed (on_message
          (example_runtime (Inr (JDict [(''iaq_score'', JInt n)])) '''')
          ''2024-05-01 12:00:00''
          \<lparr>msg_topic = ''sensor/bme680/iaq'',
           msg_payload = ''{\"iaq_score\": '' @ int_str n @ ''}''\<rparr>) ! 3
      = (case format_f 1 (JInt n) of
           Inr digits \<Rightarrow> tier_glyph (of_int n) @ '' IAQ Score    : '' @ digits @ '' [Unknown]''
         | Inl e \<Rightarrow> ''Error processing message: '' @ exc_str e)" for n
  proof -
    let ?items = "[(''iaq_score'', JInt n)]"
    let ?rt = "example_runtime (Inr (JDict ?items)) ''''"
    let ?msg = "\<lparr>msg_topic = ''sensor/bme680/iaq'',
           msg_payload = ''{\"iaq_score\": '' @ int_str n @ ''}''\<rparr>"
    have "bytes_decode ?rt (msg_payload ?msg) = Inr (msg_payload ?msg)"
      by (simp add: example_runtime_def)
    moreover have "json_loads ?rt (msg_payload ?msg) = Inr (JDict ?items)"
      by (simp add: example_runtime_def)
    moreover have "msg_topic ?msg = ''sensor/bme680/iaq''"
      by simp
    moreover have "number_value (dict_get ?items ''iaq_score'' (JInt 0)) = Some (of_int n)"
      by (simp add: dict_get_def number_value_def)
    ultimately have "take 4 (printed (on_message ?rt ''2024-05-01 12:00:00'' ?msg))
        = header ''2024-05-01 12:00:00'' ''sensor/bme680/iaq'' @
          [case format_f 1 (dict_get ?items ''iaq_score'' (JInt 0)) of
             Inr digits \<Rightarrow>
               tier_glyph (of_int n) @ '' IAQ Score    : '' @ digits @ '' [''
                 @ str ?rt (dict_get ?items ''iaq_text'' (JStr ''Unknown'')) @ '']''
           | Inl e \<Rightarrow> ''Error processing message: '' @ exc_str e]"
      using iaq_tier_selected [of ?rt ?msg "msg_payload ?msg" ?items "of_int n"
          "''2024-05-01 12:00:00''"]
      by blast
    then have "take 4 (printed (on_message ?rt ''2024-05-01 12:00:00'' ?msg)) ! 3
        = (case format_f 1 (JInt n) of
           Inr digits \<Rightarrow> tier_glyph (of_int n) @ '' IAQ Score    : '' @ digits @ '' [Unknown]''
         | Inl e \<Rightarrow> ''Error processing message: '' @ exc_str e)"
      by (simp add: header_def dict_get_def str_def split: sum.splits)
    then show ?thesis by simp
  qed
  show ?thesis
    unfolding Let_def list.map fourth
    by (simp add: format_f_def fixed_small_int tier_glyph_def)
qed

subsection \<open>The air-quality topic: an absent score\<close>

text \<open>
  \<^bold>\<open>Claim C2\<close> says that a missing numeric field counts as 0 for the tier and is printed
  as \<^verbatim>\<open>N/A\<close>. The first half holds for the score, the one field the tier depends on.
  The second half does not: the default of the score is the number 0, and that is what is
  printed. On the empty document \<^verbatim>\<open>{}\<close> the score line reads \<^verbatim>\<open>0.0\<close>.
\<close>

theorem iaq_missing_fields_counterexample:
  "printed (on_message (example_runtime (Inr (JDict [])) '''') ''2024-05-01 12:00:00''
      \<lparr>msg_topic = ''sensor/bme680/iaq'', msg_payload = ''{}''\<rparr>)
   = header ''2024-05-01 12:00:00'' ''sensor/bme680/iaq'' @
       [green_circle @ '' IAQ Score    : 0.0 [Unknown]'',
        input_numbers @ '' IAQ Level    : N/A'',
        bullseye @ '' Accuracy     : N/A'',
        ''Error processing message: Unknown format code '' @ quoted ''f''
          @ '' for object of type '' @ quoted ''str'']"
proof -
  let ?rt = "example_runtime (Inr (JDict [])) ''''"
  have "print_report ?rt ''sensor/bme680/iaq'' (JDict []) =
          ([green_circle @ '' IAQ Score    : 0.0 [Unknown]'',
            input_numbers @ '' IAQ Level    : N/A'',
            bullseye @ '' Accuracy     : N/A''],
           Some (Exc ValueError (''Unknown format code '' @ quoted ''f''
             @ '' for object of type '' @ quoted ''str'')))"
    by (simp add: print_report_def print_iaq_def indicator_zero format_zero line_def
        get_s_def get_f_absent dict_get_def str_def)
  then show ?thesis
    by (simp add: on_message_def try_body_def example_runtime_def)
qed

text \<open>
  \<^bold>\<open>Claim C2, amended.\<close> On the air-quality topic, for a dict without the key
  \<^verbatim>\<open>iaq_score\<close>: the score is the int 0, its tier is the first (green), and the
  first three lines after the header are the score line, reading \<^verbatim>\<open>0.0\<close>, the level
  line and the accuracy line; a missing label is printed as \<^verbatim>\<open>Unknown\<close>, a missing
  level and a missing accuracy as \<^verbatim>\<open>N/A\<close>. Nothing is raised. (What follows these
  three lines depends on the two fields that are formatted with a precision.)
\<close>

theorem iaq_missing_score:
  assumes "bytes_decode rt (msg_payload msg) = Inr text"
    and "json_loads rt text = Inr (JDict items)"
    and "msg_topic msg = ''sensor/bme680/iaq''"
    and "map_of items ''iaq_score'' = None"
  shows "raised (on_message rt timestamp msg) = None
    \<and> dict_get items ''iaq_score'' (JInt 0) = JInt 0
    \<and> indicator (dict_get items ''iaq_score'' (JInt 0)) = Inr green_circle
    \<and> take 3 (drop 3 (printed (on_message rt timestamp msg)))
        = [green_circle @ '' IAQ Score    : 0.0 [''
             @ str rt (dict_get items ''iaq_text'' (JStr ''Unknown'')) @ '']'',
           input_numbers @ '' IAQ Level    : ''
             @ str rt (dict_get items ''iaq_level'' (JStr ''N/A'')),
           bullseye @ '' Accuracy     : ''
             @ str rt (dict_get items ''accuracy'' (JStr ''N/A''))]
    \<and> (map_of items ''iaq_text'' = None \<longrightarrow>
          str rt (dict_get items ''iaq_text'' (JStr ''Unknown'')) = ''Unknown'')
    \<and> (map_of items ''iaq_level'' = None \<longrightarrow>
          str rt (dict_get items ''iaq_level'' (JStr ''N/A'')) = ''N/A'')
    \<and> (map_of items ''accuracy'' = None \<longrightarrow>
          str rt (dict_get items ''accuracy'' (JStr ''N/A'')) = ''N/A'')"
proof -
  let ?l1 = "green_circle @ '' IAQ Score    : 0.0 [''
             @ str rt (dict_get items ''iaq_text'' (JStr ''Unknown'')) @ '']''"
  let ?l2 = "input_numbers @ '' IAQ Level    : ''
             @ str rt (dict_get items ''iaq_level'' (JStr ''N/A''))"
  let ?l3 = "bullseye @ '' Accuracy     : ''
             @ str rt (dict_get items ''accuracy'' (JStr ''N/A''))"
  let ?rest = "[line (fog @ ''  CO2 Equiv.   : '')
              (get_f (JDict items) ''co2_equivalent'' (JStr ''N/A'') 0) '' ppm'',
            line (test_tube @ '' VOC Equiv.   : '')
              (get_f (JDict items) ''voc_equivalent'' (JStr ''N/A'') 2) '' ppm'',
            line (check_mark @ ''  Calibrated   : '')
              (get_s rt (JDict items) ''is_calibrated'' (JStr ''N/A'')) '''']"
  from assms(4) have score: "dict_get items ''iaq_score'' (JInt 0) = JInt 0"
    by (simp add: dict_get_def)
  obtain out exn where rest: "emit ?rest = (out, exn)"
    by (cases "emit ?rest")
  have "print_iaq rt (JDict items) = (?l1 # ?l2 # ?l3 # out, exn)"
    using rest
    by (simp add: print_iaq_def score indicator_zero format_zero line_def get_s_def
        del: emit.simps add: emit_Inr)
  with assms(3) have r: "print_report rt (msg_topic msg) (JDict items)
      = (?l1 # ?l2 # ?l3 # out, exn)"
    by (simp add: print_report_def)
  have out: "raised (on_message rt timestamp msg) = None
    \<and> take 3 (drop 3 (printed (on_message rt timestamp msg))) = [?l1, ?l2, ?l3]"
  proof (cases exn)
    case None
    with on_message_completed [OF assms(1,2), of "?l1 # ?l2 # ?l3 # out" timestamp] r
    show ?thesis by simp
  next
    case (Some e)
    with on_message_caught [OF assms(1,2), of "?l1 # ?l2 # ?l3 # out" e timestamp] r
    show ?thesis by simp
  qed
  have "map_of items ''iaq_text'' = None \<longrightarrow>
          str rt (dict_get items ''iaq_text'' (JStr ''Unknown'')) = ''Unknown''"
    and "map_of items ''iaq_level'' = None \<longrightarrow>
          str rt (dict_get items ''iaq_level'' (JStr ''N/A'')) = ''N/A''"
    and "map_of items ''accuracy'' = None \<longrightarrow>
          str rt (dict_get items ''accuracy'' (JStr ''N/A'')) = ''N/A''"
    by (simp_all add: dict_get_def str_def)
  with out score indicator_zero show ?thesis
    by simp
qed

theorem iaq_missing_score_witness:
  "(let out = on_message (example_runtime (Inr (JDict [(''iaq_text'', JStr ''Good'')])) '''')
               ''2024-05-01 12:00:00''
               \<lparr>msg_topic = ''sensor/bme680/iaq'', msg_payload = ''{\"iaq_text\": \"Good\"}''\<rparr>
    in raised out = None
       \<and> indicator (dict_get [(''iaq_text'', JStr ''Good'')] ''iaq_score'' (JInt 0))
           = Inr green_circle
       \<and> take 3 (drop 3 (printed out))
           = [green_circle @ '' IAQ Score    : 0.0 [Good]'',
              input_numbers @ '' IAQ Level    : N/A'',
              bullseye @ '' Accuracy     : N/A''])"
proof -
  let ?items = "[(''iaq_text'', JStr ''Good'')]"
  let ?rt = "example_runtime (Inr (JDict ?items)) ''''"
  let ?msg = "\<lparr>msg_topic = ''sensor/bme680/iaq'', msg_payload = ''{\"iaq_text\": \"Good\"}''\<rparr>"
  have "bytes_decode ?rt (msg_payload ?msg) = Inr ''{\"iaq_text\": \"Good\"}''"
    by (simp add: example_runtime_def)
  moreover have "json_loads ?rt ''{\"iaq_text\": \"Good\"}'' = Inr (JDict ?items)"
    by (simp add: example_runtime_def)
  moreover have "msg_topic ?msg = ''sensor/bme680/iaq''"
    by simp
  moreover have "map_of ?items ''iaq_score'' = None"
    by simp
  ultimately show ?thesis
    using iaq_missing_score [of ?rt ?msg _ ?items "''2024-05-01 12:00:00''"]
    by (simp add: Let_def dict_get_def str_def)
qed

subsection \<open>The status topic\<close>

text \<open>
  \<^bold>\<open>Claim C8.\<close> For a message on \<^verbatim>\<open>sensor/bme680/status\<close> whose payload decodes to a
  dict, the report is the header and two lines: the status line, which starts with the
  green circle when the status is the string \<^verbatim>\<open>online\<close> and with the red circle for
  any other value, and the client line. The two markers differ. The witness is the
  specification's scenario: the payload \<^verbatim>\<open>{"status":"online","client_id":"esp32-01"}\<close>
  gives the green marker and the identifier \<^verbatim>\<open>esp32-01\<close>.
\<close>

theorem status_marker:
  assumes "bytes_decode rt (msg_payload msg) = Inr text"
    and "json_loads rt text = Inr (JDict items)"
    and "msg_topic msg = ''sensor/bme680/status''"
  shows "on_message rt timestamp msg =
     \<lparr>printed = header timestamp ''sensor/bme680/status'' @
        [(if dict_get items ''status'' (JStr ''unknown'') = JStr ''online''
          then green_circle else red_circle)
           @ '' Status: '' @ str rt (dict_get items ''status'' (JStr ''unknown'')),
         pager @ '' Client ID: '' @ str rt (dict_get items ''client_id'' (JStr ''unknown''))],
      raised = None\<rparr>
    \<and> green_circle \<noteq> red_circle"
  using status_outcome [OF assms] by (simp add: green_circle_def red_circle_def)

theorem status_marker_witness:
  "on_message
     (example_runtime
        (Inr (JDict [(''status'', JStr ''online''), (''client_id'', JStr ''esp32-01'')])) '''')
     ''2024-05-01 12:00:00''
     \<lparr>msg_topic = ''sensor/bme680/status'',
      msg_payload = ''{\"status\":\"online\",\"client_id\":\"esp32-01\"}''\<rparr>
   = \<lparr>printed = header ''2024-05-01 12:00:00'' ''sensor/bme680/status'' @
        [green_circle @ '' Status: online'', pager @ '' Client ID: esp32-01''],
      raised = None\<rparr>"
proof -
  let ?items = "[(''status'', JStr ''online''), (''client_id'', JStr ''esp32-01'')]"
  let ?rt = "example_runtime (Inr (JDict ?items)) ''''"
  let ?msg = "\<lparr>msg_topic = ''sensor/bme680/status'',
      msg_payload = ''{\"status\":\"online\",\"client_id\":\"esp32-01\"}''\<rparr>"
  have "bytes_decode ?rt (msg_payload ?msg)
          = Inr ''{\"status\":\"online\",\"client_id\":\"esp32-01\"}''"
    by (simp add: example_runtime_def)
  moreover have "json_loads ?rt ''{\"status\":\"online\",\"client_id\":\"esp32-01\"}''
          = Inr (JDict ?items)"
    by (simp add: example_runtime_def)
  moreover have "msg_topic ?msg = ''sensor/bme680/status''"
    by simp
  ultimately show ?thesis
    using status_marker [of ?rt ?msg _ ?items "''2024-05-01 12:00:00''"]
    by (simp add: dict_get_def str_def)
qed

text \<open>
  \<^bold>\<open>Claim C10.\<close> On the status topic a dict without the key \<^verbatim>\<open>status\<close> is reported
  with the string \<^verbatim>\<open>unknown\<close> as its status, after the red circle, and a dict without
  the key \<^verbatim>\<open>client_id\<close> with \<^verbatim>\<open>unknown\<close> as its client; the default is that word
  and not the \<^verbatim>\<open>N/A\<close> of the other branches. Nothing is raised, and the output is the
  three header lines and these two.
\<close>

theorem status_defaults:
  assumes "bytes_decode rt (msg_payload msg) = Inr text"
    and "json_loads rt text = Inr (JDict items)"
    and "msg_topic msg = ''sensor/bme680/status''"
  shows "raised (on_message rt timestamp msg) = None
    \<and> length (printed (on_message rt timestamp msg)) = 5
    \<and> (map_of items ''status'' = None \<longrightarrow>
          printed (on_message rt timestamp msg) ! 3 = red_circle @ '' Status: unknown'')
    \<and> (map_of items ''client_id'' = None \<longrightarrow>
          printed (on_message rt timestamp msg) ! 4 = pager @ '' Client ID: unknown'')
    \<and> red_circle \<noteq> green_circle"
  using status_outcome [OF assms]
  by (simp add: header_def dict_get_def str_def green_circle_def red_circle_def)

text \<open>The empty document \<^verbatim>\<open>{}\<close> lacks both keys.\<close>

theorem status_defaults_witness:
  "(let out = on_message (example_runtime (Inr (JDict [])) '''') ''2024-05-01 12:00:00''
           \<lparr>msg_topic = ''sensor/bme680/status'', msg_payload = ''{}''\<rparr>
    in raised out = None \<and> length (printed out) = 5
       \<and> printed out ! 3 = red_circle @ '' Status: unknown''
       \<and> printed out ! 4 = pager @ '' Client ID: unknown'')"
proof -
  let ?rt = "example_runtime (Inr (JDict [])) ''''"
  let ?msg = "\<lparr>msg_topic = ''sensor/bme680/status'', msg_payload = ''{}''\<rparr>"
  have "bytes_decode ?rt (msg_payload ?msg) = Inr ''{}''"
    by (simp add: example_runtime_def)
  moreover have "json_loads ?rt ''{}'' = Inr (JDict [])"
    by (simp add: example_runtime_def)
  moreover have "msg_topic ?msg = ''sensor/bme680/status''"
    by simp
  ultimately show ?thesis
    using status_defaults [of ?rt ?msg _ "[]" "''2024-05-01 12:00:00''"]
    by (simp add: Let_def)
qed

subsection \<open>Topics outside the table\<close>

text \<open>
  \<^bold>\<open>Claim C7.\<close> The chain of topic tests of the callback is the classification
  \<open>categoryOf\<close> (lemma \<open>print_report_by_category\<close>), a total function. A topic that is none
  of the four of \<open>TOPICS\<close> is classified \<open>Unknown\<close>, and when the payload decodes, to
  any JSON value, the callback prints the header and one line, \<^verbatim>\<open>Payload: \<close> followed
  by \<^verbatim>\<open>json.dumps(payload, indent=2)\<close>, and raises nothing.
\<close>

theorem unknown_topic_fallback:
  assumes "msg_topic msg \<notin> set (map fst TOPICS)"
    and "bytes_decode rt (msg_payload msg) = Inr text"
    and "json_loads rt text = Inr payload"
  shows "categoryOf (msg_topic msg) = Unknown
    \<and> on_message rt timestamp msg =
        \<lparr>printed = header timestamp (msg_topic msg) @ [''Payload: '' @ json_dumps rt payload],
         raised = None\<rparr>"
proof -
  from assms(1) have u: "categoryOf (msg_topic msg) = Unknown"
    by (simp add: categoryOf_Unknown)
  then have "print_report rt (msg_topic msg) payload
               = ([''Payload: '' @ json_dumps rt payload], None)"
    by (simp add: print_report_by_category)
  from on_message_completed [OF assms(2,3) this] u show ?thesis by simp
qed

text \<open>
  The document \<^verbatim>\<open>{}\<close> on the topic \<^verbatim>\<open>sensor/bme680/config\<close>;
  \<^verbatim>\<open>json.dumps({}, indent=2)\<close> is \<^verbatim>\<open>{}\<close>.
\<close>

theorem unknown_topic_fallback_witness:
  "categoryOf ''sensor/bme680/config'' = Unknown
   \<and> on_message (example_runtime (Inr (JDict [])) ''{}'') ''2024-05-01 12:00:00''
        \<lparr>msg_topic = ''sensor/bme680/config'', msg_payload = ''{}''\<rparr>
      = \<lparr>printed = header ''2024-05-01 12:00:00'' ''sensor/bme680/config'' @ [''Payload: {}''],
         raised = None\<rparr>"
proof -
  let ?rt = "example_runtime (Inr (JDict [])) ''{}''"
  let ?msg = "\<lparr>msg_topic = ''sensor/bme680/config'', msg_payload = ''{}''\<rparr>"
  have "msg_topic ?msg \<notin> set (map fst TOPICS)"
    by (simp add: TOPICS_def)
  moreover have "bytes_decode ?rt (msg_payload ?msg) = Inr ''{}''"
    by (simp add: example_runtime_def)
  moreover have "json_loads ?rt ''{}'' = Inr (JDict [])"
    by (simp add: example_runtime_def)
  ultimately show ?thesis
    using unknown_topic_fallback [of ?msg ?rt _ "JDict []" "''2024-05-01 12:00:00''"]
    by (simp add: example_runtime_def)
qed

subsection \<open>A field of the wrong shape\<close>

text \<open>
  \<^bold>\<open>Claim C4\<close> says that after a field of the wrong shape the whole report is one
  processing-error line. The callback prints as it goes: the header and the lines of the
  fields before the failing one are already on the console when the exception is caught.
  For the document \<^verbatim>\<open>{"temperature": 21.5, "humidity": "wet"}\<close> on the data topic the
  output has five elements: the three of the header, the temperature line and the error
  line.
\<close>

theorem one_line_report_counterexample:
  "printed (on_message
     (example_runtime
        (Inr (JDict [(''temperature'', JFloat 0x4035800000000000),
                     (''humidity'', JStr ''wet'')])) '''')
     ''2024-05-01 12:00:00''
     \<lparr>msg_topic = ''sensor/bme680/data'',
      msg_payload = ''{\"temperature\": 21.5, \"humidity\": \"wet\"}''\<rparr>)
   = header ''2024-05-01 12:00:00'' ''sensor/bme680/data'' @
        [thermometer @ ''  Temperature  : 21.50 '' @ degree_sign @ ''C'',
         ''Error processing message: Unknown format code '' @ quoted ''f''
           @ '' for object of type '' @ quoted ''str'']
   \<and> length (printed (on_message
     (example_runtime
        (Inr (JDict [(''temperature'', JFloat 0x4035800000000000),
                     (''humidity'', JStr ''wet'')])) '''')
     ''2024-05-01 12:00:00''
     \<lparr>msg_topic = ''sensor/bme680/data'',
      msg_payload = ''{\"temperature\": 21.5, \"humidity\": \"wet\"}''\<rparr>)) = 5"
proof -
  let ?items = "[(''temperature'', JFloat 0x4035800000000000), (''humidity'', JStr ''wet'')]"
  let ?rt = "example_runtime (Inr (JDict ?items)) ''''"
  have "print_report ?rt ''sensor/bme680/data'' (JDict ?items) =
          ([thermometer @ ''  Temperature  : 21.50 '' @ degree_sign @ ''C''],
           Some (Exc ValueError (''Unknown format code '' @ quoted ''f''
             @ '' for object of type '' @ quoted ''str'')))"
    by (simp add: print_report_def print_data_def line_def get_f_def dict_get_def
        fixed_21_5 format_f_def)
  then show ?thesis
    by (simp add: on_message_def try_body_def example_runtime_def)
qed

text \<open>
  \<^bold>\<open>Claim C4, amended.\<close> Let the payload decode to a dict in which a field that the
  branch formats with a precision holds a string, \<^verbatim>\<open>None\<close>, a list or a dict (a boolean
  is an int to Python and is formatted as 0 or 1): one of temperature, humidity, pressure
  and gas resistance on the data topic, or the score, the CO2 or the VOC equivalent on the
  air-quality topic. Then some step of the branch raises, the callback raises nothing, and
  its output is exactly: the three lines of the header, the lines of the steps that come
  before the first step that raises, and one last line, \<^verbatim>\<open>Error processing message: \<close>
  followed by \<^verbatim>\<open>str(e)\<close> for the exception \<open>e\<close> of that step. No line before the
  last is a processing-error line. The witness is the air-quality document
  \<^verbatim>\<open>{"iaq_score": 51, "co2_equivalent": "high"}\<close>: the score, level and accuracy lines
  are printed before the error line.
\<close>

theorem wrong_shape_caught:
  assumes "bytes_decode rt (msg_payload msg) = Inr text"
    and "json_loads rt text = Inr (JDict items)"
    and "msg_topic msg = ''sensor/bme680/data''
           \<and> key \<in> set [''temperature'', ''humidity'', ''pressure'', ''gas_resistance'']
         \<or> msg_topic msg = ''sensor/bme680/iaq''
           \<and> key \<in> set [''iaq_score'', ''co2_equivalent'', ''voc_equivalent'']"
    and "map_of items key = Some v"
    and "\<not> formattable v"
  shows "(let steps = (if msg_topic msg = ''sensor/bme680/data''
                       then data_fields rt (JDict items) else iaq_steps rt items)
          in first_raised steps \<noteq> None
           \<and> on_message rt timestamp msg =
               \<lparr>printed = header timestamp (msg_topic msg) @ printed_before steps
                   @ (case first_raised steps of
                        None \<Rightarrow> []
                      | Some e \<Rightarrow> [''Error processing message: '' @ exc_str e]),
                raised = None\<rparr>
           \<and> list_all (\<lambda>l. \<not> is_error_line l)
                 (header timestamp (msg_topic msg) @ printed_before steps))"
proof -
  let ?steps = "if msg_topic msg = ''sensor/bme680/data''
                then data_fields rt (JDict items) else iaq_steps rt items"
  from assms(3) have report: "print_report rt (msg_topic msg) (JDict items) = emit ?steps"
    by (auto simp: print_report_def print_data_steps print_iaq_steps)
  from assms(3) have "\<exists>out e. print_report rt (msg_topic msg) (JDict items) = (out, Some e)
      \<and> list_all (\<lambda>l. \<not> is_error_line l) out"
  proof
    assume a: "msg_topic msg = ''sensor/bme680/data''
           \<and> key \<in> set [''temperature'', ''humidity'', ''pressure'', ''gas_resistance'']"
    then obtain out e where r: "print_data rt (JDict items) = (out, Some e)"
      using print_data_stops [of key "JDict items" rt] get_f_not_number [OF assms(4,5)]
      by blast
    with a print_data_no_error_line [OF r] show ?thesis
      by (simp add: print_report_def)
  next
    assume a: "msg_topic msg = ''sensor/bme680/iaq''
           \<and> key \<in> set [''iaq_score'', ''co2_equivalent'', ''voc_equivalent'']"
    then obtain out e where r: "print_iaq rt (JDict items) = (out, Some e)"
      using print_iaq_stops [OF _ assms(4,5), of rt] by blast
    with a print_iaq_no_error_line [OF r] show ?thesis
      by (simp add: print_report_def)
  qed
  then obtain out e where r: "print_report rt (msg_topic msg) (JDict items) = (out, Some e)"
    and n: "list_all (\<lambda>l. \<not> is_error_line l) out"
    by blast
  from r report have s: "printed_before ?steps = out" "first_raised ?steps = Some e"
    by (simp_all add: emit_steps)
  from on_message_caught [OF assms(1,2) r, of timestamp] n header_no_error_line s
  show ?thesis
    unfolding Let_def by simp
qed

theorem wrong_shape_caught_witness:
  "on_message
     (example_runtime
        (Inr (JDict [(''iaq_score'', JInt 51), (''co2_equivalent'', JStr ''high'')])) '''')
     ''2024-05-01 12:00:00''
     \<lparr>msg_topic = ''sensor/bme680/iaq'',
      msg_payload = ''{\"iaq_score\": 51, \"co2_equivalent\": \"high\"}''\<rparr>
   = \<lparr>printed = header ''2024-05-01 12:00:00'' ''sensor/bme680/iaq'' @
        [yellow_circle @ '' IAQ Score    : 51.0 [Unknown]'',
         input_numbers @ '' IAQ Level    : N/A'',
         bullseye @ '' Accuracy     : N/A'',
         ''Error processing message: Unknown format code '' @ quoted ''f''
           @ '' for object of type '' @ quoted ''str''],
      raised = None\<rparr>"
proof -
  let ?items = "[(''iaq_score'', JInt 51), (''co2_equivalent'', JStr ''high'')]"
  let ?rt = "example_runtime (Inr (JDict ?items)) ''''"
  let ?msg = "\<lparr>msg_topic = ''sensor/bme680/iaq'',
               msg_payload = ''{\"iaq_score\": 51, \"co2_equivalent\": \"high\"}''\<rparr>"
  have steps: "printed_before (iaq_steps ?rt ?items)
                 = [yellow_circle @ '' IAQ Score    : 51.0 [Unknown]'',
                    input_numbers @ '' IAQ Level    : N/A'',
                    bullseye @ '' Accuracy     : N/A'']"
    "first_raised (iaq_steps ?rt ?items)
       = Some (Exc ValueError (''Unknown format code '' @ quoted ''f''
                 @ '' for object of type '' @ quoted ''str''))"
    by (simp_all add: printed_before_def first_raised_def iaq_steps_def iaq_fields_def
        dict_get_def indicator_51 fixed_small_int line_def get_f_def get_s_def str_def
        format_f_def)
  have "bytes_decode ?rt (msg_payload ?msg)
          = Inr ''{\"iaq_score\": 51, \"co2_equivalent\": \"high\"}''"
    by (simp add: example_runtime_def)
  moreover have "json_loads ?rt ''{\"iaq_score\": 51, \"co2_equivalent\": \"high\"}''
          = Inr (JDict ?items)"
    by (simp add: example_runtime_def)
  moreover have "msg_topic ?msg = ''sensor/bme680/data''
           \<and> ''co2_equivalent'' \<in> set [''temperature'', ''humidity'', ''pressure'', ''gas_resistance'']
         \<or> msg_topic ?msg = ''sensor/bme680/iaq''
           \<and> ''co2_equivalent'' \<in> set [''iaq_score'', ''co2_equivalent'', ''voc_equivalent'']"
    by simp
  moreover have "map_of ?items ''co2_equivalent'' = Some (JStr ''high'')"
    by simp
  moreover have "\<not> formattable (JStr ''high'')"
    by (simp add: formattable_def)
  ultimately have "(let steps = (if msg_topic ?msg = ''sensor/bme680/data''
                       then data_fields ?rt (JDict ?items) else iaq_steps ?rt ?items)
          in first_raised steps \<noteq> None
           \<and> on_message ?rt ''2024-05-01 12:00:00'' ?msg =
               \<lparr>printed = header ''2024-05-01 12:00:00'' (msg_topic ?msg) @ printed_before steps
                   @ (case first_raised steps of
                        None \<Rightarrow> []
                      | Some e \<Rightarrow> [''Error processing message: '' @ exc_str e]),
                raised = None\<rparr>
           \<and> list_all (\<lambda>l. \<not> is_error_line l)
                 (header ''2024-05-01 12:00:00'' (msg_topic ?msg) @ printed_before steps))"
    by (rule wrong_shape_caught)
  then show ?thesis
    unfolding Let_def by (simp add: steps)
qed

subsection \<open>Malformed payloads\<close>

text \<open>
  \<^bold>\<open>Claim C5.\<close> When the payload decodes as text but the text is not valid JSON, so that
  \<^verbatim>\<open>json.loads\<close> raises \<^verbatim>\<open>JSONDecodeError\<close>, the callback raises nothing and prints
  exactly one line: the label \<^verbatim>\<open>Raw message: \<close> followed by the payload decoded as text,
  verbatim. Nothing else is printed, not even the header, since the decoding comes first.
\<close>

theorem malformed_payload_printed_raw:
  assumes "bytes_decode rt (msg_payload msg) = Inr text"
    and "json_loads rt text = Inl e"
    and "exc_class e = JSONDecodeError"
  shows "on_message rt timestamp msg = \<lparr>printed = [''Raw message: '' @ text], raised = None\<rparr>"
  using assms by (simp add: on_message_def try_body_def)

text \<open>
  The truncated document \<^verbatim>\<open>{"status": "online"\<close>, for which \<^verbatim>\<open>json.loads\<close> reports a
  missing delimiter.
\<close>

theorem malformed_payload_printed_raw_witness:
  "on_message
     (example_runtime
        (Inl (Exc JSONDecodeError
               (''Expecting '' @ quoted '','' @ '' delimiter: line 1 column 20 (char 19)'')))
        '''')
     ''2024-05-01 12:00:00''
     \<lparr>msg_topic = ''sensor/bme680/status'', msg_payload = ''{\"status\": \"online\"''\<rparr>
   = \<lparr>printed = [''Raw message: {\"status\": \"online\"''], raised = None\<rparr>"
proof -
  let ?e = "Exc JSONDecodeError
              (''Expecting '' @ quoted '','' @ '' delimiter: line 1 column 20 (char 19)'')"
  let ?rt = "example_runtime (Inl ?e) ''''"
  let ?msg = "\<lparr>msg_topic = ''sensor/bme680/status'', msg_payload = ''{\"status\": \"online\"''\<rparr>"
  have "bytes_decode ?rt (msg_payload ?msg) = Inr ''{\"status\": \"online\"''"
    by (simp add: example_runtime_def)
  moreover have "json_loads ?rt ''{\"status\": \"online\"'' = Inl ?e"
    by (simp add: example_runtime_def)
  moreover have "exc_class ?e = JSONDecodeError"
    by simp
  ultimately show ?thesis
    using malformed_payload_printed_raw [of ?rt ?msg _ ?e] by simp
qed

subsection \<open>Exceptions and the callback\<close>

text \<open>
  \<^bold>\<open>Claim C6.\<close> The claim is that for every message, whatever its topic and its payload
  bytes, no exception leaves the callback and every error becomes report content. For a
  message whose topic has been read this holds (lemma \<open>on_message_converts\<close>): the call
  raises nothing, what the body of the \<^verbatim>\<open>try\<close> printed stays printed, and an
  exception that ended the body adds one line, \<^verbatim>\<open>Raw message: \<close> with the decoded
  payload for a \<^verbatim>\<open>JSONDecodeError\<close> and \<^verbatim>\<open>Error processing message: \<close> with
  \<^verbatim>\<open>str(e)\<close> for any other. But the topic is read on line 60, before the \<^verbatim>\<open>try\<close>,
  and the read decodes the topic's bytes; the payload's bytes are decoded inside the
  \<^verbatim>\<open>try\<close> (line 63), the topic's are not. The theorem runs the call on a message whose
  topic is the single byte \<^verbatim>\<open>0xFF\<close>: nothing is printed and the
  \<^verbatim>\<open>UnicodeDecodeError\<close> leaves the callback.
\<close>

theorem undecodable_topic_escapes:
  "on_message_call (strict_runtime (Inr (JDict [])) ''{}'') ''2024-05-01 12:00:00''
     \<lparr>topic_bytes = [CHR 0xFF], payload_bytes = ''{}''\<rparr>
   = \<lparr>printed = [],
      raised = Some (Exc UnicodeDecodeError
                 (quoted ''utf-8'' @ '' codec can'' @ [CHR 0x27]
                  @ ''t decode byte 0xff in position 0: invalid start byte''))\<rparr>"
  by (simp add: on_message_call_def strict_runtime_def)

end
